theory Spec2Isabelle
  imports Complex_Main
begin

section \<open>Python values, errors and parameter sets\<close>

text \<open>
  The engine of \<^verbatim>\<open>backend/scenario_engine.py\<close> computes with Python numbers. Python's
  \<^verbatim>\<open>int\<close> and \<^verbatim>\<open>float\<close> values are both read as the real number they denote, so the
  arithmetic below is exact: rounding error, overflow to infinity and NaN of the IEEE
  doubles are outside this development. A parameter value is a number or a string (the
  only string-valued parameter of the catalog is \<^verbatim>\<open>region_affected\<close>).
\<close>

datatype error = ValueError | TypeError | ZeroDivisionError | IndexError | AttributeError

datatype pval = Num real | Str string

type_synonym params = "string \<rightharpoonup> pval"

definition bindE :: "error + 'a \<Rightarrow> ('a \<Rightarrow> error + 'b) \<Rightarrow> error + 'b" where
  "bindE m f = (case m of Inl e \<Rightarrow> Inl e | Inr x \<Rightarrow> f x)"

text \<open>\<^verbatim>\<open>params.get(key, default)\<close>.\<close>

definition param_get :: "params \<Rightarrow> string \<Rightarrow> pval \<Rightarrow> pval" where
  "param_get p k d = (case p k of None \<Rightarrow> d | Some v \<Rightarrow> v)"

text \<open>
  A parameter read into arithmetic with a float: a string operand raises
  \<^verbatim>\<open>TypeError\<close> there.
\<close>

fun num :: "pval \<Rightarrow> error + real" where
  "num (Num r) = Inr r"
| "num (Str s) = Inl TypeError"

text \<open>Python's \<^verbatim>\<open>a // b\<close> on numbers, for a divisor that is not zero.\<close>

definition floordiv :: "real \<Rightarrow> real \<Rightarrow> real" where
  "floordiv a b = of_int \<lfloor>a / b\<rfloor>"

section \<open>The ramp, plateau and decay envelope of \<^verbatim>\<open>_apply_effects\<close>\<close>

text \<open>
  \<^verbatim>\<open>start = int(total_periods * 0.2)\<close>, \<^verbatim>\<open>ramp = min(6, duration // 3)\<close> and
  \<^verbatim>\<open>end = min(start + duration, total_periods)\<close>.
\<close>

definition start_of :: "nat \<Rightarrow> nat" where
  "start_of total_periods = nat \<lfloor>real total_periods * 0.2\<rfloor>"

definition ramp_of :: "real \<Rightarrow> real" where
  "ramp_of duration = min 6 (floordiv duration 3)"

definition end_of :: "nat \<Rightarrow> real \<Rightarrow> real" where
  "end_of total_periods duration =
     min (real (start_of total_periods) + duration) (real total_periods)"

text \<open>
  The body of the loop over \<^verbatim>\<open>i\<close> up to the noise: the three branches in the order of
  the source. The true division by \<^verbatim>\<open>ramp\<close> raises \<^verbatim>\<open>ZeroDivisionError\<close> on zero.
\<close>

definition current_effect :: "real \<Rightarrow> nat \<Rightarrow> real \<Rightarrow> real \<Rightarrow> nat \<Rightarrow> error + real" where
  "current_effect effect start ramp end i =
     (if real i < real start + ramp then
        (if ramp = 0 then Inl ZeroDivisionError
         else Inr (effect * ((real i - real start + 1) / ramp)))
      else if real i < end then Inr effect
      else Inr (effect * (1 - min ((real i - end) / 12) 1 * 0.4)))"

text \<open>The effect applied at period \<^verbatim>\<open>i\<close> of a baseline of \<^verbatim>\<open>total_periods\<close> periods.\<close>

definition effect_at :: "nat \<Rightarrow> real \<Rightarrow> real \<Rightarrow> nat \<Rightarrow> error + real" where
  "effect_at total_periods duration effect i =
     current_effect effect (start_of total_periods) (ramp_of duration)
       (end_of total_periods duration) i"

section \<open>The random generator\<close>

text \<open>
  NumPy's global generator is a state that \<^verbatim>\<open>np.random.seed\<close> resets and every draw
  advances. The state is the seed with the number of draws made since; the standard normal
  deviate that NumPy produces for a seed and a position is the environment's
  \<open>np_gauss\<close>, and \<^verbatim>\<open>np.random.normal(0, scale)\<close> is that deviate times the scale.
  Python's \<^verbatim>\<open>hash\<close> of a frozenset of items is the environment's \<open>py_hash\<close>: a function
  of the set of items, fixed within one process.
\<close>

type_synonym rng = "nat \<times> nat"

definition np_seed :: "nat \<Rightarrow> rng" where
  "np_seed s = (s, 0)"

definition np_normal :: "(nat \<Rightarrow> nat \<Rightarrow> real) \<Rightarrow> rng \<Rightarrow> real \<Rightarrow> real \<times> rng" where
  "np_normal gauss g scale = (scale * gauss (fst g) (snd g), (fst g, Suc (snd g)))"


section \<open>The engine state\<close>

text \<open>
  The baseline is loaded once: the period labels \<^verbatim>\<open>self.dates\<close> and the price series
  \<^verbatim>\<open>self.prices\<close> by name. A period label is a date in the form \<^verbatim>\<open>%Y-%m-%d\<close>, kept
  here as its three numbers. \<^verbatim>\<open>self.regions\<close> is the fixed list of the four regions.
\<close>

record date =
  year :: nat
  month :: nat
  day :: nat

record prophet_config =
  yearly_seasonality :: bool
  weekly_seasonality :: bool
  daily_seasonality :: bool
  seasonality_mode :: string
  changepoint_prior_scale :: real
  seasonality_prior_scale :: real
  interval_width :: real

record engine =
  dates :: "date list"
  prices :: "string \<rightharpoonup> real list"
  config :: prophet_config

definition regions :: "string list" where
  "regions = [''us_ech'', ''eu_ech'', ''asia_ech'', ''china_ech'']"

section \<open>\<^verbatim>\<open>_apply_effects\<close>\<close>

text \<open>
  \<^verbatim>\<open>seed = int(abs(hash(frozenset(params.items()))) % 100000)\<close>: the items of a
  dictionary, as a set, are the graph of the map.
\<close>

definition seed_of :: "((string \<times> pval) set \<Rightarrow> int) \<Rightarrow> params \<Rightarrow> nat" where
  "seed_of py_hash p = nat (\<bar>py_hash (Map.graph p)\<bar> mod 100000)"

text \<open>
  The loop \<^verbatim>\<open>for i in range(start, total_periods)\<close> over the list of its indices:
  the effect of the period, then one draw of noise, then the write to \<^verbatim>\<open>result[i]\<close>,
  which reads \<^verbatim>\<open>baseline[i]\<close> and raises \<^verbatim>\<open>IndexError\<close> past the end of the series.
\<close>

fun effects_loop ::
  "(nat \<Rightarrow> nat \<Rightarrow> real) \<Rightarrow> real list \<Rightarrow> real \<Rightarrow> nat \<Rightarrow> real \<Rightarrow> real \<Rightarrow>
     nat list \<Rightarrow> rng \<Rightarrow> real list \<Rightarrow> error + (real list \<times> rng)" where
  "effects_loop gauss baseline effect start ramp end [] g result = Inr (result, g)"
| "effects_loop gauss baseline effect start ramp end (i # is) g result =
     (case current_effect effect start ramp end i of
        Inl e \<Rightarrow> Inl e
      | Inr ce \<Rightarrow>
          (case np_normal gauss g 0.008 of
             (noise, g') \<Rightarrow>
               if i < length baseline then
                 effects_loop gauss baseline effect start ramp end is g'
                   (result[i := baseline ! i * (1 + ce + noise)])
               else Inl IndexError))"

text \<open>The body of the loop over the regions, for a region that has a price series.\<close>

definition simulate_region ::
  "(nat \<Rightarrow> nat \<Rightarrow> real) \<Rightarrow> nat \<Rightarrow> real list \<Rightarrow> real \<Rightarrow> pval \<Rightarrow> rng \<Rightarrow>
     error + (real list \<times> rng)" where
  "simulate_region gauss total_periods baseline effect duration g =
     bindE (num duration) (\<lambda>d.
       effects_loop gauss baseline effect (start_of total_periods) (ramp_of d)
         (end_of total_periods d) [start_of total_periods ..< total_periods] g baseline)"

fun regions_loop ::
  "(nat \<Rightarrow> nat \<Rightarrow> real) \<Rightarrow> engine \<Rightarrow> (string \<rightharpoonup> real) \<Rightarrow> pval \<Rightarrow> string list \<Rightarrow> rng \<Rightarrow>
     (string \<times> real list) list \<Rightarrow> error + ((string \<times> real list) list \<times> rng)" where
  "regions_loop gauss eng effects duration [] g simulated = Inr (simulated, g)"
| "regions_loop gauss eng effects duration (region # rs) g simulated =
     (case prices eng region of
        None \<Rightarrow> regions_loop gauss eng effects duration rs g simulated
      | Some baseline \<Rightarrow>
          (case simulate_region gauss (length (dates eng)) baseline
                  (case effects region of None \<Rightarrow> 0 | Some v \<Rightarrow> v) duration g of
             Inl e \<Rightarrow> Inl e
           | Inr (result, g') \<Rightarrow>
               regions_loop gauss eng effects duration rs g' (simulated @ [(region, result)])))"

text \<open>
  \<^verbatim>\<open>_apply_effects\<close> reseeds the generator, whatever state \<open>g0\<close> earlier calls left it
  in, and returns the simulated series in the order of the regions, with the state of
  the generator after the last draw.
\<close>

definition apply_effects ::
  "((string \<times> pval) set \<Rightarrow> int) \<Rightarrow> (nat \<Rightarrow> nat \<Rightarrow> real) \<Rightarrow> engine \<Rightarrow> (string \<rightharpoonup> real) \<Rightarrow>
     params \<Rightarrow> rng \<Rightarrow> error + ((string \<times> real list) list \<times> rng)" where
  "apply_effects py_hash gauss eng effects p g0 =
     regions_loop gauss eng effects (param_get p ''duration_months'' (Num 12)) regions
       (np_seed (seed_of py_hash p)) []"


section \<open>The scenario catalog of \<^verbatim>\<open>backend/models.py\<close>\<close>

text \<open>
  A scenario of \<^verbatim>\<open>SCENARIOS\<close>, without its description and its \<^verbatim>\<open>math_info\<close>
  (documentation strings that no computation reads).
\<close>

record scenario =
  sid :: int
  name :: string
  category :: string
  affected_regions :: "string list"
  parameters :: params
  logic :: "string option"

definition SCENARIOS :: "(int \<times> scenario) list" where
  "SCENARIOS = [
     (1, \<lparr>sid = 1, name = ''Global Demand Growth'', category = ''demand'',
         affected_regions = [''all''],
         parameters = [''demand_growth_rate'' \<mapsto> Num 0.033, ''duration_months'' \<mapsto> Num 24,
                       ''price_elasticity'' \<mapsto> Num 0.6],
         logic = Some ''demand_growth''\<rparr>),
     (2, \<lparr>sid = 2, name = ''APAC Accelerated Growth'', category = ''demand'',
         affected_regions = [''asia'', ''china''],
         parameters = [''apac_growth_premium'' \<mapsto> Num 0.02, ''global_spillover'' \<mapsto> Num 0.3,
                       ''duration_months'' \<mapsto> Num 18],
         logic = Some ''apac_growth''\<rparr>),
     (3, \<lparr>sid = 3, name = ''Bio-based ECH Adoption'', category = ''feedstock'',
         affected_regions = [''asia'', ''eu''],
         parameters = [''bio_adoption_rate'' \<mapsto> Num 0.04, ''glycerine_cost_factor'' \<mapsto> Num 1.0,
                       ''duration_months'' \<mapsto> Num 36],
         logic = Some ''bio_adoption''\<rparr>),
     (4, \<lparr>sid = 4, name = ''Epoxy-Driven Demand'', category = ''demand'',
         affected_regions = [''all''],
         parameters = [''epoxy_demand_growth'' \<mapsto> Num 0.05, ''infrastructure_boost'' \<mapsto> Num 0.0,
                       ''duration_months'' \<mapsto> Num 12],
         logic = Some ''epoxy_demand''\<rparr>),
     (5, \<lparr>sid = 5, name = ''Feedstock Route Shift'', category = ''feedstock'',
         affected_regions = [''asia'', ''eu''],
         parameters = [''glycerine_share_change'' \<mapsto> Num 0.1, ''propylene_price_change'' \<mapsto> Num 0.0,
                       ''glycerine_price_change'' \<mapsto> Num 0.0, ''duration_months'' \<mapsto> Num 24],
         logic = Some ''feedstock_shift''\<rparr>),
     (6, \<lparr>sid = 6, name = ''EU Regulatory Impact'', category = ''regulatory'',
         affected_regions = [''eu''],
         parameters = [''supply_reduction'' \<mapsto> Num 0.15, ''compliance_cost'' \<mapsto> Num 0.10,
                       ''duration_months'' \<mapsto> Num 36],
         logic = Some ''eu_regulatory''\<rparr>),
     (7, \<lparr>sid = 7, name = ''Asian Glycerine Advantage'', category = ''feedstock'',
         affected_regions = [''asia'', ''china''],
         parameters = [''glycerine_cost_advantage'' \<mapsto> Num 0.15, ''competitive_intensity'' \<mapsto> Num 0.5,
                       ''duration_months'' \<mapsto> Num 18],
         logic = Some ''asian_advantage''\<rparr>),
     (8, \<lparr>sid = 8, name = ''Plant Shutdowns'', category = ''supply'',
         affected_regions = [''eu'', ''us''],
         parameters = [''capacity_offline'' \<mapsto> Num 0.10, ''region_affected'' \<mapsto> Str ''eu'',
                       ''duration_months'' \<mapsto> Num 6],
         logic = Some ''plant_shutdown''\<rparr>),
     (9, \<lparr>sid = 9, name = ''Supply Chain Disruption'', category = ''supply'',
         affected_regions = [''all''],
         parameters = [''disruption_severity'' \<mapsto> Num 0.20, ''recovery_months'' \<mapsto> Num 4,
                       ''duration_months'' \<mapsto> Num 8],
         logic = Some ''supply_disruption''\<rparr>),
     (10, \<lparr>sid = 10, name = ''Capacity Expansion'', category = ''supply'',
         affected_regions = [''asia'', ''china''],
         parameters = [''capacity_addition'' \<mapsto> Num 0.15, ''ramp_up_months'' \<mapsto> Num 6,
                       ''duration_months'' \<mapsto> Num 24],
         logic = Some ''capacity_expansion''\<rparr>),
     (11, \<lparr>sid = 11, name = ''Americas Market Stability'', category = ''regional'',
         affected_regions = [''us''],
         parameters = [''isolation_factor'' \<mapsto> Num 0.7, ''competitive_pressure'' \<mapsto> Num 0.0,
                       ''duration_months'' \<mapsto> Num 24],
         logic = Some ''americas_stability''\<rparr>),
     (12, \<lparr>sid = 12, name = ''Europe Price Elevation'', category = ''regional'',
         affected_regions = [''eu''],
         parameters = [''capacity_reduction'' \<mapsto> Num 0.12, ''import_dependency'' \<mapsto> Num 0.2,
                       ''duration_months'' \<mapsto> Num 18],
         logic = Some ''europe_elevation''\<rparr>),
     (13, \<lparr>sid = 13, name = ''APAC Price Pressure'', category = ''regional'',
         affected_regions = [''asia'', ''china''],
         parameters = [''feedstock_pressure'' \<mapsto> Num 0.08, ''shutdown_impact'' \<mapsto> Num 0.05,
                       ''duration_months'' \<mapsto> Num 12],
         logic = Some ''apac_pressure''\<rparr>),
     (14, \<lparr>sid = 14, name = ''Asian Price Undercutting'', category = ''competitive'',
         affected_regions = [''asia'', ''china''],
         parameters = [''price_discount'' \<mapsto> Num 0.10, ''market_share_target'' \<mapsto> Num 0.05,
                       ''duration_months'' \<mapsto> Num 18],
         logic = Some ''asian_undercut''\<rparr>),
     (15, \<lparr>sid = 15, name = ''EU Supply Constraints'', category = ''competitive'',
         affected_regions = [''eu''],
         parameters = [''supply_constraint'' \<mapsto> Num 0.15, ''pricing_power'' \<mapsto> Num 0.8,
                       ''duration_months'' \<mapsto> Num 24],
         logic = Some ''eu_constraints''\<rparr>),
     (16, \<lparr>sid = 16, name = ''US Stable Production'', category = ''competitive'',
         affected_regions = [''us''],
         parameters = [''output_stability'' \<mapsto> Num 0.95, ''price_volatility_reduction'' \<mapsto> Num 0.3,
                       ''duration_months'' \<mapsto> Num 36],
         logic = Some ''us_stable''\<rparr>)]"

definition get_scenario :: "int \<Rightarrow> scenario option" where
  "get_scenario scenario_id = map_of SCENARIOS scenario_id"

section \<open>The effect formulas\<close>

text \<open>
  The dictionary literal that every handler returns, in the source's order of keys.
  \<open>getnum\<close> is \<^verbatim>\<open>params.get(key, default)\<close> read into arithmetic.
\<close>

definition effects_of :: "real \<Rightarrow> real \<Rightarrow> real \<Rightarrow> real \<Rightarrow> (string \<rightharpoonup> real)" where
  "effects_of us eu asia china =
     [''us_ech'' \<mapsto> us, ''eu_ech'' \<mapsto> eu, ''asia_ech'' \<mapsto> asia, ''china_ech'' \<mapsto> china]"

definition getnum :: "params \<Rightarrow> string \<Rightarrow> real \<Rightarrow> error + real" where
  "getnum p k d = num (param_get p k (Num d))"

definition logic_demand_growth :: "params \<Rightarrow> error + (string \<rightharpoonup> real)" where
  "logic_demand_growth p =
     bindE (getnum p ''demand_growth_rate'' 0.033) (\<lambda>growth.
     bindE (getnum p ''price_elasticity'' 0.6) (\<lambda>elasticity.
     bindE (getnum p ''duration_months'' 24) (\<lambda>duration_months.
       let duration_years = duration_months / 12;
           cumulative_growth = growth * duration_years;
           price_effect = cumulative_growth * elasticity
       in Inr (effects_of (price_effect * 0.9) (price_effect * 1.0)
                 (price_effect * 1.1) (price_effect * 1.15)))))"

definition logic_apac_growth :: "params \<Rightarrow> error + (string \<rightharpoonup> real)" where
  "logic_apac_growth p =
     bindE (getnum p ''apac_growth_premium'' 0.02) (\<lambda>premium.
     bindE (getnum p ''global_spillover'' 0.3) (\<lambda>spillover.
     bindE (getnum p ''duration_months'' 18) (\<lambda>duration_months.
       let duration_years = duration_months / 12;
           apac_effect = premium * duration_years * 0.6;
           global_effect = apac_effect * spillover * 0.59
       in Inr (effects_of global_effect (global_effect * 1.1)
                 apac_effect (apac_effect * 1.1)))))"

definition logic_bio_adoption :: "params \<Rightarrow> error + (string \<rightharpoonup> real)" where
  "logic_bio_adoption p =
     bindE (getnum p ''bio_adoption_rate'' 0.04) (\<lambda>adoption.
     bindE (getnum p ''glycerine_cost_factor'' 1.0) (\<lambda>glycerine_cost.
     bindE (getnum p ''duration_months'' 36) (\<lambda>duration_months.
       let duration_years = duration_months / 12;
           bio_effect = adoption * duration_years
       in Inr (effects_of (bio_effect * 0.02) (bio_effect * glycerine_cost * 0.08)
                 (bio_effect * - 0.05) (bio_effect * - 0.06)))))"

definition logic_epoxy_demand :: "params \<Rightarrow> error + (string \<rightharpoonup> real)" where
  "logic_epoxy_demand p =
     bindE (getnum p ''epoxy_demand_growth'' 0.05) (\<lambda>epoxy_growth.
     bindE (getnum p ''infrastructure_boost'' 0.0) (\<lambda>infra_boost.
     bindE (getnum p ''duration_months'' 12) (\<lambda>duration_months.
       let duration_years = duration_months / 12;
           total_demand = (epoxy_growth + infra_boost) * 0.86;
           price_effect = total_demand * duration_years * 0.7
       in Inr (effects_of (price_effect * 0.9) (price_effect * 1.0)
                 (price_effect * 1.1) (price_effect * 1.15)))))"

definition logic_feedstock_shift :: "params \<Rightarrow> error + (string \<rightharpoonup> real)" where
  "logic_feedstock_shift p =
     bindE (getnum p ''glycerine_share_change'' 0.1) (\<lambda>glycerine_shift.
     bindE (getnum p ''propylene_price_change'' 0.0) (\<lambda>propylene_change.
     bindE (getnum p ''glycerine_price_change'' 0.0) (\<lambda>glycerine_change.
       Inr (effects_of (propylene_change * 0.4 + glycerine_shift * 0.02)
              (propylene_change * 0.35 + glycerine_change * 0.15 + glycerine_shift * 0.05)
              (glycerine_change * 0.4 - glycerine_shift * 0.04)
              (glycerine_change * 0.45 - glycerine_shift * 0.05)))))"

definition logic_eu_regulatory :: "params \<Rightarrow> error + (string \<rightharpoonup> real)" where
  "logic_eu_regulatory p =
     bindE (getnum p ''supply_reduction'' 0.15) (\<lambda>supply_cut.
     bindE (getnum p ''compliance_cost'' 0.10) (\<lambda>compliance.
     bindE (getnum p ''duration_months'' 36) (\<lambda>duration_months.
       let duration_years = duration_months / 12;
           eu_effect = (supply_cut * 0.5 + compliance) * min duration_years 2
       in Inr (effects_of (supply_cut * 0.02) eu_effect
                 (- supply_cut * 0.02) (- supply_cut * 0.03)))))"

definition logic_asian_advantage :: "params \<Rightarrow> error + (string \<rightharpoonup> real)" where
  "logic_asian_advantage p =
     bindE (getnum p ''glycerine_cost_advantage'' 0.15) (\<lambda>cost_advantage.
     bindE (getnum p ''competitive_intensity'' 0.5) (\<lambda>intensity.
     bindE (getnum p ''duration_months'' 18) (\<lambda>duration_months.
       let duration_years = duration_months / 12;
           asia_effect = - cost_advantage * intensity * min duration_years 1.5
       in Inr (effects_of (- cost_advantage * intensity * 0.3)
                 (- cost_advantage * intensity * 0.2) asia_effect (asia_effect * 1.1)))))"

definition logic_plant_shutdown :: "params \<Rightarrow> error + (string \<rightharpoonup> real)" where
  "logic_plant_shutdown p =
     bindE (getnum p ''capacity_offline'' 0.10) (\<lambda>offline.
     bindE (getnum p ''duration_months'' 6) (\<lambda>duration_months.
       let region = param_get p ''region_affected'' (Str ''eu'');
           supply_elasticity = 1.7;
           direct_effect = offline * supply_elasticity;
           duration_factor = min (duration_months / 6) 1.5
       in Inr (if region = Str ''eu'' then
                 effects_of (direct_effect * 0.2) (direct_effect * duration_factor)
                   (direct_effect * 0.15) (direct_effect * 0.1)
               else if region = Str ''us'' then
                 effects_of (direct_effect * duration_factor) (direct_effect * 0.15) 0.0 0.0
               else if region \<in> set [Str ''asia'', Str ''china''] then
                 effects_of (direct_effect * 0.05) (direct_effect * 0.1)
                   (direct_effect * duration_factor * 0.9) (direct_effect * duration_factor)
               else effects_of 0.0 0.0 0.0 0.0)))"

definition logic_supply_disruption :: "params \<Rightarrow> error + (string \<rightharpoonup> real)" where
  "logic_supply_disruption p =
     bindE (getnum p ''disruption_severity'' 0.20) (\<lambda>severity.
     bindE (getnum p ''recovery_months'' 4) (\<lambda>recovery.
     bindE (getnum p ''duration_months'' 8) (\<lambda>duration.
       let peak_effect = severity * 1.5 in
       if duration * 2 = 0 then Inl ZeroDivisionError
       else
         let avg_effect = peak_effect * (1 - recovery / (duration * 2))
         in Inr (effects_of (avg_effect * 0.8) (avg_effect * 1.0)
                   (avg_effect * 0.9) (avg_effect * 0.85)))))"

definition logic_capacity_expansion :: "params \<Rightarrow> error + (string \<rightharpoonup> real)" where
  "logic_capacity_expansion p =
     bindE (getnum p ''capacity_addition'' 0.15) (\<lambda>addition.
     bindE (getnum p ''ramp_up_months'' 6) (\<lambda>ramp_up.
     bindE (getnum p ''duration_months'' 24) (\<lambda>duration.
       if duration * 2 = 0 then Inl ZeroDivisionError
       else
         let effective_addition = addition * (1 - ramp_up / (duration * 2));
             price_effect = - effective_addition * 0.8
         in Inr (effects_of (price_effect * 0.4) (price_effect * 0.5)
                   (price_effect * 1.0) (price_effect * 1.1)))))"

definition logic_americas_stability :: "params \<Rightarrow> error + (string \<rightharpoonup> real)" where
  "logic_americas_stability p =
     bindE (getnum p ''isolation_factor'' 0.7) (\<lambda>isolation.
     bindE (getnum p ''competitive_pressure'' 0.0) (\<lambda>pressure.
       Inr (effects_of (- pressure * 0.5) (0.02 * (1 - isolation))
              (0.03 * (1 - isolation)) (0.03 * (1 - isolation)))))"

definition logic_europe_elevation :: "params \<Rightarrow> error + (string \<rightharpoonup> real)" where
  "logic_europe_elevation p =
     bindE (getnum p ''capacity_reduction'' 0.12) (\<lambda>reduction.
     bindE (getnum p ''import_dependency'' 0.2) (\<lambda>import_dep.
     bindE (getnum p ''duration_months'' 18) (\<lambda>duration_months.
       let duration_years = duration_months / 12;
           eu_effect = (reduction * 1.5 + import_dep * 0.3) * min duration_years 1.5
       in Inr (effects_of (reduction * 0.1) eu_effect
                 (- reduction * 0.05) (- reduction * 0.05)))))"

definition logic_apac_pressure :: "params \<Rightarrow> error + (string \<rightharpoonup> real)" where
  "logic_apac_pressure p =
     bindE (getnum p ''feedstock_pressure'' 0.08) (\<lambda>feedstock.
     bindE (getnum p ''shutdown_impact'' 0.05) (\<lambda>shutdown.
     bindE (getnum p ''duration_months'' 12) (\<lambda>duration_months.
       let duration_years = duration_months / 12;
           combined = (feedstock + shutdown * 1.5) * min duration_years 1
       in Inr (effects_of (combined * 0.15) (combined * 0.2) combined (combined * 1.1)))))"

definition logic_asian_undercut :: "params \<Rightarrow> error + (string \<rightharpoonup> real)" where
  "logic_asian_undercut p =
     bindE (getnum p ''price_discount'' 0.10) (\<lambda>discount.
     bindE (getnum p ''market_share_target'' 0.05) (\<lambda>share_target.
     bindE (getnum p ''duration_months'' 18) (\<lambda>duration_months.
       let duration_years = duration_months / 12;
           asia_cut = - discount * min duration_years 1.5;
           pressure = discount * share_target * 5
       in Inr (effects_of (- pressure * 0.6) (- pressure * 0.5) asia_cut (asia_cut * 1.1)))))"

definition logic_eu_constraints :: "params \<Rightarrow> error + (string \<rightharpoonup> real)" where
  "logic_eu_constraints p =
     bindE (getnum p ''supply_constraint'' 0.15) (\<lambda>constraint.
     bindE (getnum p ''pricing_power'' 0.8) (\<lambda>power.
     bindE (getnum p ''duration_months'' 24) (\<lambda>duration_months.
       let duration_years = duration_months / 12;
           eu_increase = constraint * power * min duration_years 2
       in Inr (effects_of (constraint * 0.05) eu_increase
                 (- constraint * 0.03) (- constraint * 0.04)))))"

text \<open>\<^verbatim>\<open>_logic_us_stable\<close> reads two parameters and uses neither.\<close>

definition logic_us_stable :: "params \<Rightarrow> error + (string \<rightharpoonup> real)" where
  "logic_us_stable p = Inr (effects_of 0.0 0.01 0.015 0.02)"

definition logic_default :: "params \<Rightarrow> error + (string \<rightharpoonup> real)" where
  "logic_default p = Inr (map_of (map (\<lambda>r. (r, 0.0)) regions))"

definition handlers :: "(string \<times> (params \<Rightarrow> error + (string \<rightharpoonup> real))) list" where
  "handlers = [
     (''demand_growth'', logic_demand_growth),
     (''apac_growth'', logic_apac_growth),
     (''bio_adoption'', logic_bio_adoption),
     (''epoxy_demand'', logic_epoxy_demand),
     (''feedstock_shift'', logic_feedstock_shift),
     (''eu_regulatory'', logic_eu_regulatory),
     (''asian_advantage'', logic_asian_advantage),
     (''plant_shutdown'', logic_plant_shutdown),
     (''supply_disruption'', logic_supply_disruption),
     (''capacity_expansion'', logic_capacity_expansion),
     (''americas_stability'', logic_americas_stability),
     (''europe_elevation'', logic_europe_elevation),
     (''apac_pressure'', logic_apac_pressure),
     (''asian_undercut'', logic_asian_undercut),
     (''eu_constraints'', logic_eu_constraints),
     (''us_stable'', logic_us_stable)]"

text \<open>
  \<^verbatim>\<open>_calculate_price_effects\<close>: \<^verbatim>\<open>scenario.get('logic', 'default')\<close>, then
  \<^verbatim>\<open>handlers.get(logic, self._logic_default)\<close>.
\<close>

definition calculate_price_effects :: "scenario \<Rightarrow> params \<Rightarrow> error + (string \<rightharpoonup> real)" where
  "calculate_price_effects scenario p =
     (let lg = (case logic scenario of None \<Rightarrow> ''default'' | Some l \<Rightarrow> l);
          handler = (case map_of handlers lg of None \<Rightarrow> logic_default | Some h \<Rightarrow> h)
      in handler p)"


section \<open>Rounding and the NumPy aggregates\<close>

text \<open>
  \<^verbatim>\<open>round(x, ndigits)\<close> rounds to the nearest multiple of \<open>10 ^ - ndigits\<close>, a tie to
  the even one.
\<close>

definition round_half_even :: "real \<Rightarrow> int" where
  "round_half_even x =
     (let f = \<lfloor>x\<rfloor>; r = x - of_int f
      in if r < 1 / 2 then f else if 1 / 2 < r then f + 1 else if even f then f else f + 1)"

definition py_round :: "real \<Rightarrow> nat \<Rightarrow> real" where
  "py_round x ndigits = of_int (round_half_even (x * 10 ^ ndigits)) / 10 ^ ndigits"

definition np_mean :: "real list \<Rightarrow> real" where
  "np_mean xs = sum_list xs / real (length xs)"

definition np_std :: "real list \<Rightarrow> real" where
  "np_std xs = sqrt (np_mean (map (\<lambda>x. (x - np_mean xs)\<^sup>2) xs))"

definition np_max :: "real list \<Rightarrow> real" where
  "np_max xs = fold max (tl xs) (hd xs)"

definition np_min :: "real list \<Rightarrow> real" where
  "np_min xs = fold min (tl xs) (hd xs)"

section \<open>\<^verbatim>\<open>_calculate_metrics\<close>\<close>

record region_metrics =
  baseline_avg :: real
  simulated_avg :: real
  change_percent :: real
  max_price :: real
  min_price :: real

text \<open>
  The metrics of one region. \<^verbatim>\<open>np.max\<close> of an empty series raises \<^verbatim>\<open>ValueError\<close>,
  and the division of two Python floats raises \<^verbatim>\<open>ZeroDivisionError\<close> when the mean of
  the baseline is zero. (The simulated series is as long as its baseline; the mean of an
  empty series is NaN, which divides without an error.)
\<close>

definition region_metrics_of :: "real list \<Rightarrow> real list \<Rightarrow> error + region_metrics" where
  "region_metrics_of baseline sim =
     (let base_avg = np_mean baseline; sim_avg = np_mean sim
      in if sim = [] then Inl ValueError
         else if base_avg = 0 then Inl ZeroDivisionError
         else Inr \<lparr>baseline_avg = py_round base_avg 4,
                   simulated_avg = py_round sim_avg 4,
                   change_percent = py_round ((sim_avg - base_avg) / base_avg * 100) 2,
                   max_price = py_round (np_max sim) 4,
                   min_price = py_round (np_min sim) 4\<rparr>)"

fun metrics_loop ::
  "engine \<Rightarrow> (string \<times> real list) list \<Rightarrow> string list \<Rightarrow> (string \<times> region_metrics) list \<Rightarrow>
     error + (string \<times> region_metrics) list" where
  "metrics_loop eng simulated [] metrics = Inr metrics"
| "metrics_loop eng simulated (region # rs) metrics =
     (case (map_of simulated region, prices eng region) of
        (Some sim, Some baseline) \<Rightarrow>
          (case region_metrics_of baseline sim of
             Inl e \<Rightarrow> Inl e
           | Inr m \<Rightarrow> metrics_loop eng simulated rs (metrics @ [(region, m)]))
      | _ \<Rightarrow> metrics_loop eng simulated rs metrics)"

definition calculate_metrics ::
  "engine \<Rightarrow> (string \<times> real list) list \<Rightarrow> error + (string \<times> region_metrics) list" where
  "calculate_metrics eng simulated = metrics_loop eng simulated regions []"

section \<open>Forecast dates\<close>

text \<open>
  \<^verbatim>\<open>last_date + relativedelta(months=k)\<close>: the month advances by \<open>k\<close>, the year by the
  carry, and the day is cut to the last day of the month reached.
\<close>

definition is_leap :: "nat \<Rightarrow> bool" where
  "is_leap y = (y mod 4 = 0 \<and> (if y mod 100 = 0 then y mod 400 = 0 else True))"

definition days_in_month :: "nat \<Rightarrow> nat \<Rightarrow> nat" where
  "days_in_month y m =
     (if m = 2 then (if is_leap y then 29 else 28)
      else if m = 4 \<or> m = 6 \<or> m = 9 \<or> m = 11 then 30 else 31)"

definition add_months :: "date \<Rightarrow> nat \<Rightarrow> date" where
  "add_months d k =
     (let t = month d - 1 + k; y = year d + t div 12; m = t mod 12 + 1
      in \<lparr>year = y, month = m, day = min (day d) (days_in_month y m)\<rparr>)"

text \<open>
  The dates of a forecast, the same code at the end of both strategies:
  \<^verbatim>\<open>self.dates[-1]\<close> raises \<^verbatim>\<open>IndexError\<close> on an engine without dates.
\<close>

definition forecast_dates_of :: "engine \<Rightarrow> nat \<Rightarrow> error + date list" where
  "forecast_dates_of eng months =
     (if dates eng = [] then Inl IndexError
      else Inr (map (\<lambda>i. add_months (last (dates eng)) (i + 1)) [0..<months]))"

section \<open>The fallback forecast\<close>

record region_forecast =
  point :: "real list"
  lower_95 :: "real list"
  upper_95 :: "real list"
  trend :: "real list option"
  seasonality :: "real list option"

record forecast =
  by_region :: "(string \<times> region_forecast) list"
  forecast_dates :: "date list"
  model :: string
  confidence_interval :: string

text \<open>
  \<^verbatim>\<open>_estimate_seasonality\<close>: the mean of each month over the complete years, as a
  deviation from the mean of those twelve, scaled by 0.05; \<^verbatim>\<open>None\<close> on less than two
  periods of history.
\<close>

definition estimate_seasonality :: "real list \<Rightarrow> nat \<Rightarrow> real list option" where
  "estimate_seasonality prices_arr period =
     (if length prices_arr < period * 2 then None
      else
        let n_years = length prices_arr div period;
            truncated = take (n_years * period) prices_arr;
            seasonal = map (\<lambda>m. np_mean (map (\<lambda>y. truncated ! (y * period + m)) [0..<n_years]))
                         [0..<period];
            centred = map (\<lambda>x. x - np_mean seasonal) seasonal
        in Some (map (\<lambda>x. x * 0.05) centred))"

text \<open>
  The loop \<^verbatim>\<open>for i in range(months)\<close> of \<^verbatim>\<open>_generate_simple_forecast\<close>, with the
  running value \<^verbatim>\<open>current\<close>, the generator and the three lists it appends to.
\<close>

fun forecast_steps ::
  "(nat \<Rightarrow> nat \<Rightarrow> real) \<Rightarrow> real \<Rightarrow> real \<Rightarrow> real \<Rightarrow> real list option \<Rightarrow> nat \<Rightarrow> nat list \<Rightarrow>
     real \<Rightarrow> rng \<Rightarrow> real list \<times> real list \<times> real list \<Rightarrow>
     (real list \<times> real list \<times> real list) \<times> rng" where
  "forecast_steps gauss trnd mean_price std_price seas last_month_idx [] current g acc = (acc, g)"
| "forecast_steps gauss trnd mean_price std_price seas last_month_idx (i # is) current g acc =
     (let trend_decay = 0.85 ^ i;
          trend_effect = trnd * trend_decay;
          reversion = (mean_price - current) * 0.08;
          season_idx = (last_month_idx + i) mod 12;
          seasonal = (case seas of None \<Rightarrow> 0 | Some sv \<Rightarrow> sv ! season_idx);
          current' = current + trend_effect + reversion + seasonal;
          drawn = np_normal gauss g (std_price * 0.03);
          pt = current' + fst drawn;
          uncertainty = std_price * sqrt (real (i + 1)) * 0.2
      in forecast_steps gauss trnd mean_price std_price seas last_month_idx is current' (snd drawn)
           (fst acc @ [py_round pt 4],
            fst (snd acc) @ [py_round (pt - 1.96 * uncertainty) 4],
            snd (snd acc) @ [py_round (pt + 1.96 * uncertainty) 4]))"

text \<open>
  One region of the fallback: \<^verbatim>\<open>prices_arr[-1]\<close> raises \<^verbatim>\<open>IndexError\<close> on an empty
  series; the generator is reseeded with 42 before the steps.
\<close>

definition simple_region ::
  "(nat \<Rightarrow> nat \<Rightarrow> real) \<Rightarrow> real list \<Rightarrow> nat \<Rightarrow> error + (region_forecast \<times> rng)" where
  "simple_region gauss prices_arr months =
     (if prices_arr = [] then Inl IndexError
      else
        let last_price = last prices_arr;
            mean_price = np_mean prices_arr;
            std_price = np_std prices_arr;
            last_6 = drop (length prices_arr - 6) prices_arr;
            trnd = (if length last_6 > 1 then (last last_6 - hd last_6) / 6 else 0);
            seas = estimate_seasonality prices_arr 12;
            last_month_idx = length prices_arr mod 12;
            out = forecast_steps gauss trnd mean_price std_price seas last_month_idx
                    [0..<months] last_price (np_seed 42) ([], [], [])
        in Inr (\<lparr>point = fst (fst out), lower_95 = fst (snd (fst out)),
                  upper_95 = snd (snd (fst out)), trend = None, seasonality = None\<rparr>,
                snd out))"

fun simple_regions ::
  "(nat \<Rightarrow> nat \<Rightarrow> real) \<Rightarrow> nat \<Rightarrow> (string \<times> real list) list \<Rightarrow> rng \<Rightarrow>
     (string \<times> region_forecast) list \<Rightarrow> error + ((string \<times> region_forecast) list \<times> rng)" where
  "simple_regions gauss months [] g fc = Inr (fc, g)"
| "simple_regions gauss months ((region, prices_arr) # rest) g fc =
     (case simple_region gauss prices_arr months of
        Inl e \<Rightarrow> Inl e
      | Inr (rf, g') \<Rightarrow> simple_regions gauss months rest g' (fc @ [(region, rf)]))"

definition generate_simple_forecast ::
  "(nat \<Rightarrow> nat \<Rightarrow> real) \<Rightarrow> engine \<Rightarrow> (string \<times> real list) list \<Rightarrow> nat \<Rightarrow> rng \<Rightarrow>
     error + forecast" where
  "generate_simple_forecast gauss eng simulated months g =
     bindE (simple_regions gauss months simulated g []) (\<lambda>out.
     bindE (forecast_dates_of eng months) (\<lambda>ds.
       Inr \<lparr>by_region = fst out, forecast_dates = ds, model = ''simple_fallback'',
            confidence_interval = ''95%''\<rparr>))"


section \<open>The Prophet forecast\<close>

text \<open>
  Prophet is a library outside the repository. What the engine hands to it for one
  region (the history, the configuration, the scenario regressor over the history and
  over the future rows when the scenario is still running, the number of future rows) is
  a \<open>prophet_input\<close>; what \<^verbatim>\<open>model.predict(future)\<close> returns, one row per period of
  the history and of the future, is a \<open>prophet_columns\<close>. The library itself is a
  function from the one to the other that may raise and may draw from the generator.
\<close>

record prophet_input =
  ds_column :: "date list"
  y_column :: "real list"
  settings :: prophet_config
  scenario_effect :: "real list option"
  periods :: nat
  future_scenario_effect :: "real list option"

record prophet_columns =
  yhat :: "real list"
  yhat_lower :: "real list"
  yhat_upper :: "real list"
  trend_column :: "real list"
  yearly :: "real list option"

type_synonym prophet = "prophet_input \<Rightarrow> rng \<Rightarrow> error + (prophet_columns \<times> rng)"

text \<open>The body of the loop of \<^verbatim>\<open>_create_scenario_regressor\<close>.\<close>

definition regressor_value :: "nat \<Rightarrow> real \<Rightarrow> real \<Rightarrow> nat \<Rightarrow> error + real" where
  "regressor_value start ramp end i =
     (if i < start then Inr 0
      else if real i < real start + ramp then
        (if ramp = 0 then Inl ZeroDivisionError
         else Inr ((real i - real start + 1) / ramp))
      else if real i < end then Inr 1.0
      else Inr (1 - min ((real i - end) / 12) 1.0 * 0.4))"

fun collect :: "(nat \<Rightarrow> error + real) \<Rightarrow> nat list \<Rightarrow> error + real list" where
  "collect f [] = Inr []"
| "collect f (i # is) =
     (case f i of
        Inl e \<Rightarrow> Inl e
      | Inr v \<Rightarrow> (case collect f is of Inl e \<Rightarrow> Inl e | Inr vs \<Rightarrow> Inr (v # vs)))"

definition create_scenario_regressor :: "nat \<Rightarrow> params \<Rightarrow> nat \<Rightarrow> error + real list" where
  "create_scenario_regressor n_periods p total_periods =
     bindE (getnum p ''duration_months'' 12) (\<lambda>duration.
       collect (regressor_value (start_of total_periods) (ramp_of duration)
                  (end_of total_periods duration)) [0..<n_periods])"

text \<open>
  \<^verbatim>\<open>_extend_scenario_regressor\<close>: the future frame has the history and
  \<^verbatim>\<open>forecast_months\<close> more rows.
\<close>

definition extend_scenario_regressor :: "params \<Rightarrow> nat \<Rightarrow> nat \<Rightarrow> error + real list" where
  "extend_scenario_regressor p total_periods forecast_months =
     bindE (getnum p ''duration_months'' 12) (\<lambda>duration.
       let start = start_of total_periods;
           end = real start + duration;
           n_historical = total_periods;
           n_total = total_periods + forecast_months
       in bindE (create_scenario_regressor n_historical p total_periods) (\<lambda>hist.
            Inr (hist @ map (\<lambda>i. if real i < end then 1.0
                                   else max 0 (1 - min ((real i - end) / 12) 1.0 * 0.6))
                          [n_historical..<n_total])))"

text \<open>\<^verbatim>\<open>DataFrame.tail(n)\<close>: the last \<open>n\<close> rows.\<close>

definition tail :: "nat \<Rightarrow> 'a list \<Rightarrow> 'a list" where
  "tail n xs = drop (length xs - n) xs"

definition prophet_region ::
  "prophet \<Rightarrow> engine \<Rightarrow> params \<Rightarrow> bool \<Rightarrow> nat \<Rightarrow> real list \<Rightarrow> rng \<Rightarrow>
     error + (region_forecast \<times> rng)" where
  "prophet_region predict eng p scenario_ongoing months prices_arr g =
     (let total_periods = length (dates eng) in
      bindE (if scenario_ongoing then
               bindE (create_scenario_regressor (length prices_arr) p total_periods)
                 (\<lambda>r. Inr (Some r))
             else Inr None) (\<lambda>reg.
      bindE (if scenario_ongoing then
               bindE (extend_scenario_regressor p total_periods months) (\<lambda>r. Inr (Some r))
             else Inr None) (\<lambda>fut.
      bindE (predict \<lparr>ds_column = dates eng, y_column = prices_arr, settings = config eng,
                       scenario_effect = reg, periods = months,
                       future_scenario_effect = fut\<rparr> g) (\<lambda>out.
        let future_forecast = fst out
        in Inr (\<lparr>point = map (\<lambda>x. py_round x 4) (tail months (yhat future_forecast)),
                  lower_95 = map (\<lambda>x. py_round x 4) (tail months (yhat_lower future_forecast)),
                  upper_95 = map (\<lambda>x. py_round x 4) (tail months (yhat_upper future_forecast)),
                  trend = Some (map (\<lambda>x. py_round x 4)
                                  (tail months (trend_column future_forecast))),
                  seasonality = map_option (\<lambda>c. map (\<lambda>x. py_round x 4) (tail months c))
                                  (yearly future_forecast)\<rparr>,
                snd out)))))"

fun prophet_regions ::
  "prophet \<Rightarrow> engine \<Rightarrow> params \<Rightarrow> bool \<Rightarrow> nat \<Rightarrow> (string \<times> real list) list \<Rightarrow> rng \<Rightarrow>
     (string \<times> region_forecast) list \<Rightarrow> error + ((string \<times> region_forecast) list \<times> rng)" where
  "prophet_regions predict eng p ongoing months [] g fc = Inr (fc, g)"
| "prophet_regions predict eng p ongoing months ((region, prices_arr) # rest) g fc =
     (case prophet_region predict eng p ongoing months prices_arr g of
        Inl e \<Rightarrow> Inl e
      | Inr (rf, g') \<Rightarrow> prophet_regions predict eng p ongoing months rest g' (fc @ [(region, rf)]))"

definition generate_prophet_forecast ::
  "prophet \<Rightarrow> engine \<Rightarrow> (string \<times> real list) list \<Rightarrow> params \<Rightarrow> nat \<Rightarrow> rng \<Rightarrow>
     error + forecast" where
  "generate_prophet_forecast predict eng simulated p months g =
     bindE (getnum p ''duration_months'' 12) (\<lambda>scenario_duration.
       let total_periods = length (dates eng);
           scenario_end_idx = real (start_of total_periods) + scenario_duration;
           scenario_ongoing = (real total_periods < scenario_end_idx)
       in bindE (prophet_regions predict eng p scenario_ongoing months simulated g []) (\<lambda>out.
          bindE (forecast_dates_of eng months) (\<lambda>fds.
            Inr \<lparr>by_region = fst out, forecast_dates = fds, model = ''prophet'',
                 confidence_interval = ''95%''\<rparr>)))"

text \<open>
  The environment of a run: the process's \<^verbatim>\<open>hash\<close>, NumPy's normal deviates, whether
  the import of Prophet succeeded, and Prophet.
\<close>

record env =
  py_hash :: "(string \<times> pval) set \<Rightarrow> int"
  np_gauss :: "nat \<Rightarrow> nat \<Rightarrow> real"
  PROPHET_AVAILABLE :: bool
  prophet_predict :: prophet

text \<open>
  \<^verbatim>\<open>_generate_forecast\<close>: any exception of the Prophet strategy is caught and the
  fallback runs in its place.
\<close>

definition generate_forecast ::
  "env \<Rightarrow> engine \<Rightarrow> (string \<times> real list) list \<Rightarrow> params \<Rightarrow> nat \<Rightarrow> rng \<Rightarrow> error + forecast" where
  "generate_forecast E eng simulated p months g =
     (if PROPHET_AVAILABLE E then
        (case generate_prophet_forecast (prophet_predict E) eng simulated p months g of
           Inr f \<Rightarrow> Inr f
         | Inl e \<Rightarrow> generate_simple_forecast (np_gauss E) eng simulated months g)
      else generate_simple_forecast (np_gauss E) eng simulated months g)"

section \<open>\<^verbatim>\<open>apply_scenario\<close>\<close>

text \<open>
  The merge of the caller's parameters into a copy of the defaults: the items of
  \<^verbatim>\<open>custom_params\<close> in their order, each stored only under a key the defaults have.
\<close>

definition merge_params :: "params \<Rightarrow> (string \<times> pval) list option \<Rightarrow> params" where
  "merge_params defaults custom_params =
     (case custom_params of
        None \<Rightarrow> defaults
      | Some items \<Rightarrow>
          fold (\<lambda>(key, v) ps. if ps key \<noteq> None then ps(key \<mapsto> v) else ps) items defaults)"

record simulation_result =
  scenario_id :: int
  scenario_name :: string
  scenario_category :: string
  result_affected_regions :: "string list"
  parameters_used :: params
  price_effects :: "string \<rightharpoonup> real"
  simulated_prices :: "(string \<times> real list) list"
  baseline_prices :: "string \<rightharpoonup> real list"
  metrics :: "(string \<times> region_metrics) list"
  result_forecast :: forecast
  result_dates :: "date list"

text \<open>
  \<open>g0\<close> is the state in which earlier calls left the global generator. The forecast
  horizon is the default of \<^verbatim>\<open>_generate_forecast\<close>, 12 months.
\<close>

definition apply_scenario ::
  "env \<Rightarrow> engine \<Rightarrow> rng \<Rightarrow> int \<Rightarrow> (string \<times> pval) list option \<Rightarrow> error + simulation_result" where
  "apply_scenario E eng g0 scen_id custom_params =
     (case get_scenario scen_id of
        None \<Rightarrow> Inl ValueError
      | Some scenario \<Rightarrow>
          let p = merge_params (parameters scenario) custom_params in
          bindE (calculate_price_effects scenario p) (\<lambda>effects.
          bindE (apply_effects (py_hash E) (np_gauss E) eng effects p g0) (\<lambda>sim.
          bindE (calculate_metrics eng (fst sim)) (\<lambda>ms.
          bindE (generate_forecast E eng (fst sim) p 12 (snd sim)) (\<lambda>fc.
            Inr \<lparr>scenario_id = scen_id,
                 scenario_name = name scenario,
                 scenario_category = category scenario,
                 result_affected_regions = affected_regions scenario,
                 parameters_used = p,
                 price_effects = (\<lambda>k. map_option (\<lambda>v. py_round (v * 100) 2) (effects k)),
                 simulated_prices = fst sim,
                 baseline_prices = prices eng,
                 metrics = ms,
                 result_forecast = fc,
                 result_dates = dates eng\<rparr>)))))"

section \<open>The comparison route of \<^verbatim>\<open>backend/app.py\<close>\<close>

text \<open>
  The names that an instance of \<^verbatim>\<open>ScenarioEngine\<close> has: the attributes set by
  \<^verbatim>\<open>__init__\<close> and the methods of the class. Reading any other name raises
  \<^verbatim>\<open>AttributeError\<close>.
\<close>

definition ScenarioEngine_attributes :: "string list" where
  "ScenarioEngine_attributes = [
     ''baseline_data'', ''dates'', ''prices'', ''market'', ''regions'', ''prophet_config'',
     ''__init__'', ''apply_scenario'', ''_calculate_price_effects'',
     ''_logic_demand_growth'', ''_logic_apac_growth'', ''_logic_bio_adoption'',
     ''_logic_epoxy_demand'', ''_logic_feedstock_shift'', ''_logic_eu_regulatory'',
     ''_logic_asian_advantage'', ''_logic_plant_shutdown'', ''_logic_supply_disruption'',
     ''_logic_capacity_expansion'', ''_logic_americas_stability'', ''_logic_europe_elevation'',
     ''_logic_apac_pressure'', ''_logic_asian_undercut'', ''_logic_eu_constraints'',
     ''_logic_us_stable'', ''_logic_default'', ''_apply_effects'', ''_calculate_metrics'',
     ''_generate_forecast'', ''_generate_prophet_forecast'', ''_create_scenario_regressor'',
     ''_extend_scenario_regressor'', ''_generate_simple_forecast'', ''_estimate_seasonality'',
     ''get_forecast_components'', ''update_prophet_config'']"

definition engine_getattr :: "string \<Rightarrow> error + string" where
  "engine_getattr attr =
     (if attr \<in> set ScenarioEngine_attributes then Inr attr else Inl AttributeError)"

text \<open>
  The request of \<^verbatim>\<open>POST /api/compare\<close>: whether its body is JSON, and the value under
  \<^verbatim>\<open>scenario_ids\<close> when the body has one. The response is the HTTP status with the
  error message, if any.
\<close>

record compare_request =
  is_json :: bool
  scenario_ids :: "int list option"

definition compare_scenarios :: "compare_request \<Rightarrow> nat \<times> string option" where
  "compare_scenarios request =
     (if \<not> is_json request then (400, Some ''Request must be JSON'')
      else
        let ids = (case scenario_ids request of None \<Rightarrow> [] | Some l \<Rightarrow> l)
        in if ids = [] then (400, Some ''scenario_ids is required'')
           else if length ids > 5 then (400, Some ''Maximum 5 scenarios for comparison'')
           else (case engine_getattr ''compare_scenarios'' of
                   Inl e \<Rightarrow> (500, Some ''Comparison error'')
                 | Inr method \<Rightarrow> (200, None)))"


section \<open>Notions used to state the properties\<close>

text \<open>
  The invariant of a baseline: every regional series has one price per date.
\<close>

definition series_aligned :: "engine \<Rightarrow> bool" where
  "series_aligned eng =
     list_all (\<lambda>r. case prices eng r of None \<Rightarrow> True | Some b \<Rightarrow> length b = length (dates eng))
       regions"



text \<open>
  No regional series of the baseline has the mean 0 (prices are positive).
\<close>

definition means_nonzero :: "engine \<Rightarrow> bool" where
  "means_nonzero eng =
     list_all (\<lambda>r. case prices eng r of None \<Rightarrow> True | Some b \<Rightarrow> np_mean b \<noteq> 0) regions"

text \<open>
  The value of the envelope at a period of the loop, the series that the loop leaves for
  a region whose first draw is draw \<open>c\<close> of the generator seeded with \<open>s\<close>, and the
  number of regions with a series that the loop over the regions visits before a region.
\<close>

definition phase_value :: "real \<Rightarrow> nat \<Rightarrow> real \<Rightarrow> real \<Rightarrow> nat \<Rightarrow> real" where
  "phase_value effect start ramp end i =
     (case current_effect effect start ramp end i of Inl e \<Rightarrow> 0 | Inr v \<Rightarrow> v)"

definition simulated_series ::
  "(nat \<Rightarrow> nat \<Rightarrow> real) \<Rightarrow> nat \<Rightarrow> real list \<Rightarrow> real \<Rightarrow> real \<Rightarrow> nat \<Rightarrow> nat \<Rightarrow> real list" where
  "simulated_series gauss tp baseline effect d s c =
     map (\<lambda>j. if start_of tp \<le> j then
                 baseline ! j *
                   (1 + phase_value effect (start_of tp) (ramp_of d) (end_of tp d) j
                      + 0.008 * gauss s (c + (j - start_of tp)))
               else baseline ! j) [0..<length baseline]"

fun regions_before :: "engine \<Rightarrow> string list \<Rightarrow> string \<Rightarrow> nat" where
  "regions_before eng [] r = 0"
| "regions_before eng (x # xs) r =
     (if x = r then 0
      else (case prices eng x of None \<Rightarrow> 0 | Some b \<Rightarrow> 1) + regions_before eng xs r)"

definition region_entry ::
  "(nat \<Rightarrow> nat \<Rightarrow> real) \<Rightarrow> engine \<Rightarrow> (string \<rightharpoonup> real) \<Rightarrow> real \<Rightarrow> nat \<Rightarrow> nat \<Rightarrow> string \<Rightarrow>
     (string \<times> real list) list" where
  "region_entry gauss eng effects d s c r =
     (case prices eng r of None \<Rightarrow> []
      | Some b \<Rightarrow> [(r, simulated_series gauss (length (dates eng)) b
                        (case effects r of None \<Rightarrow> 0 | Some v \<Rightarrow> v) d s c)])"

text \<open>
  What the engine relies on from Prophet: a prediction has one row for every period of
  the history and of the future in each column it reads, and its interval encloses its
  point estimate.
\<close>

definition prophet_rows :: "prophet \<Rightarrow> bool" where
  "prophet_rows predict =
     (\<forall>inp g cols g'. predict inp g = Inr (cols, g') \<longrightarrow>
        length (yhat cols) = length (ds_column inp) + periods inp \<and>
        length (yhat_lower cols) = length (ds_column inp) + periods inp \<and>
        length (yhat_upper cols) = length (ds_column inp) + periods inp)"

definition prophet_intervals :: "prophet \<Rightarrow> bool" where
  "prophet_intervals predict =
     (\<forall>inp g cols g'. predict inp g = Inr (cols, g') \<longrightarrow>
        length (yhat_lower cols) = length (yhat cols) \<and>
        length (yhat_upper cols) = length (yhat cols) \<and>
        (\<forall>j < length (yhat cols).
           yhat_lower cols ! j \<le> yhat cols ! j \<and> yhat cols ! j \<le> yhat_upper cols ! j))"

text \<open>
  Three lists of one length, the first enclosed between the second and the third; a
  regional forecast whose bounds enclose its points; a regional forecast of a given
  horizon.
\<close>

definition enclosed :: "real list \<times> real list \<times> real list \<Rightarrow> bool" where
  "enclosed acc =
     (length (fst (snd acc)) = length (fst acc) \<and> length (snd (snd acc)) = length (fst acc)
      \<and> (\<forall>j < length (fst acc).
            fst (snd acc) ! j \<le> fst acc ! j \<and> fst acc ! j \<le> snd (snd acc) ! j))"

definition interval_ok :: "region_forecast \<Rightarrow> bool" where
  "interval_ok rf = enclosed (point rf, lower_95 rf, upper_95 rf)"

definition has_horizon :: "nat \<Rightarrow> region_forecast \<Rightarrow> bool" where
  "has_horizon months rf =
     (length (point rf) = months \<and> length (lower_95 rf) = months
      \<and> length (upper_95 rf) = months)"

section \<open>A small baseline for the examples\<close>

definition default_prophet_config :: prophet_config where
  "default_prophet_config =
     \<lparr>yearly_seasonality = True, weekly_seasonality = False, daily_seasonality = False,
      seasonality_mode = ''multiplicative'', changepoint_prior_scale = 0.05,
      seasonality_prior_scale = 10, interval_width = 0.95\<rparr>"

definition example_engine :: engine where
  "example_engine =
     \<lparr>dates = [\<lparr>year = 2020, month = 1, day = 31\<rparr>, \<lparr>year = 2020, month = 2, day = 29\<rparr>,
               \<lparr>year = 2020, month = 3, day = 31\<rparr>, \<lparr>year = 2020, month = 4, day = 30\<rparr>,
               \<lparr>year = 2020, month = 5, day = 31\<rparr>],
      prices = [''us_ech'' \<mapsto> [100, 100, 100, 100, 100]],
      config = default_prophet_config\<rparr>"

text \<open>
  A generator whose every deviate is 1, a generator whose every deviate is 0, and a hash
  that is 7 on every set.
\<close>

definition unit_gauss :: "nat \<Rightarrow> nat \<Rightarrow> real" where
  "unit_gauss s k = 1"

definition zero_gauss :: "nat \<Rightarrow> nat \<Rightarrow> real" where
  "zero_gauss s k = 0"

definition seven_hash :: "(string \<times> pval) set \<Rightarrow> int" where
  "seven_hash items = 7"

text \<open>A stand-in for Prophet that predicts 1 with the interval from 0 to 2 on every row.\<close>

definition flat_prophet :: prophet where
  "flat_prophet inp g =
     (let n = length (ds_column inp) + periods inp
      in Inr (\<lparr>yhat = replicate n 1, yhat_lower = replicate n 0, yhat_upper = replicate n 2,
                trend_column = replicate n 1, yearly = None\<rparr>, g))"

definition example_env :: env where
  "example_env = \<lparr>py_hash = seven_hash, np_gauss = zero_gauss, PROPHET_AVAILABLE = True,
                  prophet_predict = flat_prophet\<rparr>"

section \<open>The envelope\<close>

lemma start_of_div: "start_of n = n div 5"
proof -
  have "\<lfloor>real n / real 5\<rfloor> = int (n div 5)" by (rule floor_divide_of_nat_eq)
  then show ?thesis unfolding start_of_def by simp
qed

lemma start_of_le: "start_of n \<le> n"
  by (simp add: start_of_div)

lemma ramp_of_int: "ramp_of (real_of_int k) = real_of_int (min 6 (k div 3))"
proof -
  have "\<lfloor>real_of_int k / real_of_int 3\<rfloor> = k div 3" by (rule floor_divide_of_int_eq)
  then show ?thesis by (simp add: ramp_of_def floordiv_def min_def)
qed

lemma ramp_of_le: "0 \<le> d \<Longrightarrow> ramp_of d \<le> d"
proof -
  assume d: "0 \<le> d"
  have "real_of_int \<lfloor>d / 3\<rfloor> \<le> d / 3" by (rule of_int_floor_le)
  also have "\<dots> \<le> d" using d by simp
  finally show ?thesis by (simp add: ramp_of_def floordiv_def min_def)
qed

lemma ramp_of_neg: "d < 0 \<Longrightarrow> ramp_of d < 0"
proof -
  assume d: "d < 0"
  have "real_of_int \<lfloor>d / 3\<rfloor> \<le> d / 3" by (rule of_int_floor_le)
  also have "\<dots> < 0" using d by simp
  finally show ?thesis by (simp add: ramp_of_def floordiv_def min_def)
qed

lemma ramp_of_pos: "0 < ramp_of d \<Longrightarrow> 1 \<le> ramp_of d"
proof -
  assume "0 < ramp_of d"
  then have "0 < real_of_int \<lfloor>d / 3\<rfloor>" by (simp add: ramp_of_def floordiv_def min_def split: if_splits)
  then have "1 \<le> \<lfloor>d / 3\<rfloor>" by linarith
  then have "1 \<le> real_of_int \<lfloor>d / 3\<rfloor>" by linarith
  then show ?thesis by (simp add: ramp_of_def floordiv_def min_def)
qed

lemma ramp_of_small: "0 \<le> d \<Longrightarrow> d < 3 \<Longrightarrow> ramp_of d = 0"
proof -
  assume "0 \<le> d" "d < 3"
  then have "\<lfloor>d / 3\<rfloor> = 0" by (simp add: floor_eq_iff)
  then show ?thesis by (simp add: ramp_of_def floordiv_def)
qed

lemma current_effect_Inr:
  "start \<le> i \<Longrightarrow> current_effect effect start ramp end i = Inr (phase_value effect start ramp end i)"
  by (auto simp: phase_value_def current_effect_def)

lemma end_of_ramp:
  assumes "i < tp" "end_of tp d \<le> real i" "start_of tp \<le> i"
  shows "real (start_of tp) + ramp_of d \<le> real i"
proof (cases "0 \<le> d")
  case True
  from assms(1,2) have "real (start_of tp) + d \<le> real i"
    by (simp add: end_of_def min_def split: if_splits)
  with ramp_of_le[OF True] show ?thesis by linarith
next
  case False
  then have "ramp_of d < 0" using ramp_of_neg by simp
  with assms(3) show ?thesis by simp
qed

lemma six: "start_of tp + 6 \<le> tp \<Longrightarrow> end_of tp 6 = real (start_of tp) + 6"
  by (simp add: end_of_def min_def)

lemma ramp6: "ramp_of 6 = 2"
  by (simp add: ramp_of_def floordiv_def)

lemma d6:
  assumes "start_of tp + 6 \<le> tp"
  shows "effect_at tp 6 effect (start_of tp) = Inr (effect * (1 / 2))"
    "effect_at tp 6 effect (start_of tp + 1) = Inr effect"
    "k \<in> {2, 3, 4, 5, 6} \<Longrightarrow> effect_at tp 6 effect (start_of tp + k) = Inr effect"
    "effect_at tp 6 effect (start_of tp + 7) = Inr (effect * (29 / 30))"
  using assms by (auto simp add: effect_at_def current_effect_def ramp6 six)

text \<open>
  Claim C1, as the code has it. For every period \<open>i\<close> of the loop
  (\<open>start \<le> i < total_periods\<close>) the applied effect is
  \<open>effect * (i - start + 1) / ramp\<close> on the ramp \<open>i < start + ramp\<close>, the full effect on
  the plateau \<open>start + ramp \<le> i < end\<close> and
  \<open>effect * (1 - min ((i - end) / 12) 1 * 0.4)\<close> from \<open>end\<close> on, where
  \<open>start = total_periods div 5\<close>, \<open>ramp = min 6 (duration div 3)\<close> and
  \<open>end = min (start + duration) total_periods\<close>. With a duration of 6 months the ramp has
  2 periods: half the effect at \<open>start\<close> and already the full effect at \<open>start + 1\<close>,
  the last period of the ramp. The full effect is held through \<open>start + 6\<close> (the
  plateau branch from \<open>start + 2\<close> to \<open>start + 5\<close>, and the decay branch with a decay of
  0 at \<open>start + 6\<close>), and the decay shows from \<open>start + 7\<close> on.
\<close>

theorem envelope_three_phases:
  assumes "start_of tp \<le> i" "i < tp"
  shows "(real i < real (start_of tp) + ramp_of d \<longrightarrow>
            effect_at tp d effect i
              = Inr (effect * ((real i - real (start_of tp) + 1) / ramp_of d)))
       \<and> (real (start_of tp) + ramp_of d \<le> real i \<and> real i < end_of tp d \<longrightarrow>
            effect_at tp d effect i = Inr effect)
       \<and> (end_of tp d \<le> real i \<longrightarrow>
            effect_at tp d effect i
              = Inr (effect * (1 - min ((real i - end_of tp d) / 12) 1 * 0.4)))
       \<and> start_of tp = tp div 5
       \<and> ramp_of (real_of_int k) = real_of_int (min 6 (k div 3))
       \<and> (start_of tp + 6 \<le> tp \<longrightarrow>
            ramp_of 6 = 2
          \<and> effect_at tp 6 effect (start_of tp) = Inr (effect * (1 / 2))
          \<and> effect_at tp 6 effect (start_of tp + 1) = Inr effect
          \<and> effect_at tp 6 effect (start_of tp + 2) = Inr effect
          \<and> effect_at tp 6 effect (start_of tp + 3) = Inr effect
          \<and> effect_at tp 6 effect (start_of tp + 4) = Inr effect
          \<and> effect_at tp 6 effect (start_of tp + 5) = Inr effect
          \<and> effect_at tp 6 effect (start_of tp + 6) = Inr effect
          \<and> effect_at tp 6 effect (start_of tp + 7) = Inr (effect * (29 / 30)))"
proof (intro conjI impI)
  assume r: "real i < real (start_of tp) + ramp_of d"
  with assms(1) have "ramp_of d \<noteq> 0" by auto
  with r show "effect_at tp d effect i
              = Inr (effect * ((real i - real (start_of tp) + 1) / ramp_of d))"
    by (simp add: effect_at_def current_effect_def)
next
  assume "real (start_of tp) + ramp_of d \<le> real i \<and> real i < end_of tp d"
  then show "effect_at tp d effect i = Inr effect"
    by (simp add: effect_at_def current_effect_def)
next
  assume e: "end_of tp d \<le> real i"
  from end_of_ramp[OF assms(2) e assms(1)] e
  show "effect_at tp d effect i
              = Inr (effect * (1 - min ((real i - end_of tp d) / 12) 1 * 0.4))"
    by (simp add: effect_at_def current_effect_def)
next
  show "start_of tp = tp div 5" by (rule start_of_div)
next
  show "ramp_of (real_of_int k) = real_of_int (min 6 (k div 3))" by (rule ramp_of_int)
next
  show "ramp_of 6 = 2" by (rule ramp6)
next
  assume a: "start_of tp + 6 \<le> tp"
  show "effect_at tp 6 effect (start_of tp) = Inr (effect * (1 / 2))" by (rule d6(1)[OF a])
  show "effect_at tp 6 effect (start_of tp + 1) = Inr effect" by (rule d6(2)[OF a])
  show "effect_at tp 6 effect (start_of tp + 2) = Inr effect" by (rule d6(3)[OF a]) simp
  show "effect_at tp 6 effect (start_of tp + 3) = Inr effect" by (rule d6(3)[OF a]) simp
  show "effect_at tp 6 effect (start_of tp + 4) = Inr effect" by (rule d6(3)[OF a]) simp
  show "effect_at tp 6 effect (start_of tp + 5) = Inr effect" by (rule d6(3)[OF a]) simp
  show "effect_at tp 6 effect (start_of tp + 6) = Inr effect" by (rule d6(3)[OF a]) simp
  show "effect_at tp 6 effect (start_of tp + 7) = Inr (effect * (29 / 30))" by (rule d6(4)[OF a])
qed

theorem envelope_three_phases_witness:
  "start_of 60 \<le> 12 \<and> (12::nat) < 60 \<and> start_of 60 + 6 \<le> 60
   \<and> effect_at 60 6 (1 / 10) 12 = Inr (1 / 20)
   \<and> effect_at 60 6 (1 / 10) (start_of 60 + 1) = Inr (1 / 10)
   \<and> effect_at 60 6 (1 / 10) (start_of 60 + 6) = Inr (1 / 10)
   \<and> effect_at 60 6 (1 / 10) (start_of 60 + 7) = Inr (29 / 300)"
  using envelope_three_phases[of 60 12 6 "1 / 10" 6]
  by (simp add: start_of_div ramp6)


text \<open>
  The claim puts the first period with the full effect at \<open>start + 2\<close>. With 60 periods
  \<open>start\<close> is 12, and the full effect \<open>1 / 10\<close> is applied at period 13 already.
\<close>

theorem plateau_counterexample:
  "start_of 60 = 12 \<and> ramp_of 6 = 2 \<and> effect_at 60 6 (1 / 10) (12 + 1) = Inr (1 / 10)"
  by (simp add: effect_at_def current_effect_def start_of_def ramp_of_def end_of_def floordiv_def)

section \<open>No division by zero in \<^verbatim>\<open>_apply_effects\<close>\<close>

lemma effects_loop_no_zero_division:
  "\<forall>i\<in>set is. start \<le> i \<Longrightarrow>
   effects_loop gauss baseline effect start ramp end is g result \<noteq> Inl ZeroDivisionError"
proof (induction "is" arbitrary: g result)
  case Nil
  then show ?case by simp
next
  case (Cons i "is")
  then have "start \<le> i" "\<forall>i\<in>set is. start \<le> i" by auto
  then show ?case
    using Cons.IH by (simp add: current_effect_Inr np_normal_def)
qed

lemma simulate_region_no_zero_division:
  "simulate_region gauss tp baseline effect duration g \<noteq> Inl ZeroDivisionError"
proof (cases duration)
  case (Num d)
  then show ?thesis
    using effects_loop_no_zero_division[of "[start_of tp..<tp]" "start_of tp"]
    by (simp add: simulate_region_def bindE_def)
next
  case (Str s)
  then show ?thesis by (simp add: simulate_region_def bindE_def)
qed

lemma regions_loop_no_zero_division:
  "regions_loop gauss eng effects duration rs g sim \<noteq> Inl ZeroDivisionError"
proof (induction rs arbitrary: g sim)
  case Nil
  then show ?case by simp
next
  case (Cons r rs)
  show ?case
  proof (cases "prices eng r")
    case None
    then show ?thesis using Cons.IH by simp
  next
    case (Some b)
    show ?thesis
    proof (cases "simulate_region gauss (length (dates eng)) b
                  (case effects r of None \<Rightarrow> 0 | Some v \<Rightarrow> v) duration g")
      case (Inl e)
      then have "e \<noteq> ZeroDivisionError" using simulate_region_no_zero_division by metis
      then show ?thesis using Some Inl by simp
    next
      case (Inr res)
      then show ?thesis using Some Cons.IH by (cases res) simp
    qed
  qed
qed


text \<open>
  Claim C10, as the code has it. For every duration the division by \<open>ramp\<close> runs only
  when \<open>ramp \<ge> 1\<close>, no period of the loop raises \<^verbatim>\<open>ZeroDivisionError\<close>, and
  \<^verbatim>\<open>_apply_effects\<close> never returns that error. For \<open>0 \<le> duration < 3\<close> there is no ramp
  and the effect at \<open>start\<close> is the full effect. For a negative duration there is no ramp
  either, but \<open>end\<close> lies before \<open>start\<close> and the effect at \<open>start\<close> is already decayed:
  \<open>effect * (1 - min (- duration / 12) 1 * 0.4)\<close>.
\<close>

theorem ramp_division_safe:
  "(start_of tp \<le> i \<and> real i < real (start_of tp) + ramp_of d \<longrightarrow> 1 \<le> ramp_of d)
   \<and> (start_of tp \<le> i \<longrightarrow> effect_at tp d effect i \<noteq> Inl ZeroDivisionError)
   \<and> apply_effects h gauss eng effects p g0 \<noteq> Inl ZeroDivisionError
   \<and> (0 \<le> d \<and> d < 3 \<longrightarrow>
        ramp_of d = 0 \<and> effect_at tp d effect (start_of tp) = Inr effect)
   \<and> (d < 0 \<longrightarrow>
        ramp_of d < 0 \<and>
        effect_at tp d effect (start_of tp) = Inr (effect * (1 - min (- d / 12) 1 * 0.4)))"
proof (intro conjI impI)
  assume "start_of tp \<le> i \<and> real i < real (start_of tp) + ramp_of d"
  then have "0 < ramp_of d" by auto
  then show "1 \<le> ramp_of d" by (rule ramp_of_pos)
next
  assume "start_of tp \<le> i"
  then show "effect_at tp d effect i \<noteq> Inl ZeroDivisionError"
    by (simp add: effect_at_def current_effect_Inr)
next
  show "apply_effects h gauss eng effects p g0 \<noteq> Inl ZeroDivisionError"
    by (simp add: apply_effects_def regions_loop_no_zero_division)
next
  assume d: "0 \<le> d \<and> d < 3"
  then show "ramp_of d = 0" by (simp add: ramp_of_small)
  have "real (start_of tp) \<le> real tp" using start_of_le by simp
  with d show "effect_at tp d effect (start_of tp) = Inr effect"
    by (auto simp: effect_at_def current_effect_def ramp_of_small end_of_def min_def)
next
  assume d: "d < 0"
  then show "ramp_of d < 0" by (rule ramp_of_neg)
  have "real (start_of tp) \<le> real tp" using start_of_le by simp
  with d have e: "end_of tp d = real (start_of tp) + d" by (simp add: end_of_def min_def)
  show "effect_at tp d effect (start_of tp) = Inr (effect * (1 - min (- d / 12) 1 * 0.4))"
    using d ramp_of_neg[OF d] by (simp add: effect_at_def current_effect_def e)
qed

theorem ramp_division_safe_witness:
  "1 \<le> ramp_of 6 \<and> effect_at 60 6 (1 / 10) 12 \<noteq> Inl ZeroDivisionError
   \<and> ramp_of 2 = 0 \<and> effect_at 60 2 (1 / 10) (start_of 60) = Inr (1 / 10)
   \<and> ramp_of (- 3) < 0 \<and> effect_at 60 (- 3) (1 / 10) (start_of 60) = Inr (9 / 100)"
  using ramp_division_safe[of 60 12 6 "1 / 10"] ramp_division_safe[of 60 12 2 "1 / 10"]
    ramp_division_safe[of 60 12 "- 3" "1 / 10"]
  by (simp add: start_of_div ramp6)


text \<open>
  The claim has the full effect at \<open>start\<close> for every duration below 3. With a duration
  of \<open>- 3\<close> months and 60 periods the effect \<open>1 / 10\<close> is applied as \<open>9 / 100\<close> at
  \<open>start = 12\<close>.
\<close>

theorem negative_duration_counterexample:
  "start_of 60 = 12 \<and> ramp_of (- 3) = - 1 \<and> effect_at 60 (- 3) (1 / 10) 12 = Inr (9 / 100)"
  by (simp add: effect_at_def current_effect_def start_of_def ramp_of_def end_of_def floordiv_def)


section \<open>The simulated series\<close>

lemma effects_loop_result:
  assumes "\<forall>i\<in>set is. start \<le> i \<and> i < length baseline" "distinct is"
    "length result = length baseline"
  shows "\<exists>r'. effects_loop gauss baseline effect start ramp end is (s, c) result
             = Inr (r', (s, c + length is))
           \<and> length r' = length result
           \<and> (\<forall>j. j \<notin> set is \<longrightarrow> r' ! j = result ! j)
           \<and> (\<forall>k<length is. r' ! (is ! k) =
                 baseline ! (is ! k) *
                   (1 + phase_value effect start ramp end (is ! k) + 0.008 * gauss s (c + k)))"
  using assms
proof (induction "is" arbitrary: c result)
  case Nil
  then show ?case by simp
next
  case (Cons i "is")
  let ?v = "baseline ! i * (1 + phase_value effect start ramp end i + 0.008 * gauss s c)"
  let ?res = "result[i := ?v]"
  have i: "start \<le> i" "i < length baseline" "i \<notin> set is" using Cons.prems by auto
  have step: "effects_loop gauss baseline effect start ramp end (i # is) (s, c) result
      = effects_loop gauss baseline effect start ramp end is (s, Suc c) ?res"
    using i by (simp add: current_effect_Inr np_normal_def)
  from Cons.prems have "\<forall>i\<in>set is. start \<le> i \<and> i < length baseline" "distinct is"
    "length ?res = length baseline" by auto
  from Cons.IH[OF this, of "Suc c"] obtain r' where r':
    "effects_loop gauss baseline effect start ramp end is (s, Suc c) ?res = Inr (r', (s, Suc c + length is))"
    "length r' = length ?res"
    "\<forall>j. j \<notin> set is \<longrightarrow> r' ! j = ?res ! j"
    "\<forall>k<length is. r' ! (is ! k) =
        baseline ! (is ! k) * (1 + phase_value effect start ramp end (is ! k) + 0.008 * gauss s (Suc c + k))"
    by blast
  have a: "\<forall>j. j \<notin> set (i # is) \<longrightarrow> r' ! j = result ! j"
    using r'(3) by auto
  have b: "\<forall>k<length (i # is). r' ! ((i # is) ! k) =
        baseline ! ((i # is) ! k) * (1 + phase_value effect start ramp end ((i # is) ! k) + 0.008 * gauss s (c + k))"
  proof (intro allI impI)
    fix k assume k: "k < length (i # is)"
    show "r' ! ((i # is) ! k) =
        baseline ! ((i # is) ! k) * (1 + phase_value effect start ramp end ((i # is) ! k) + 0.008 * gauss s (c + k))"
    proof (cases k)
      case 0
      have "r' ! i = ?res ! i" using r'(3) i(3) by blast
      also have "\<dots> = ?v" using i(2) Cons.prems(3) by simp
      finally show ?thesis using 0 by simp
    next
      case (Suc k')
      then show ?thesis using r'(4) k by simp
    qed
  qed
  show ?case
    unfolding step using r'(1,2) a b by (intro exI[of _ r']) simp
qed

lemma simulate_region_series:
  assumes "length baseline = tp"
  shows "simulate_region gauss tp baseline effect (Num d) (s, c) =
           Inr (simulated_series gauss tp baseline effect d s c, (s, c + (tp - start_of tp)))"
proof -
  let ?st = "start_of tp"
  let ?is = "[?st..<tp]"
  have "\<forall>i\<in>set ?is. ?st \<le> i \<and> i < length baseline" "distinct ?is" "length baseline = length baseline"
    using assms by auto
  from effects_loop_result[OF this, of gauss effect "ramp_of d" "end_of tp d" s c]
  obtain r' where r':
    "effects_loop gauss baseline effect ?st (ramp_of d) (end_of tp d) ?is (s, c) baseline
       = Inr (r', (s, c + length ?is))"
    "length r' = length baseline"
    "\<forall>j. j \<notin> set ?is \<longrightarrow> r' ! j = baseline ! j"
    "\<forall>k<length ?is. r' ! (?is ! k) =
        baseline ! (?is ! k) *
          (1 + phase_value effect ?st (ramp_of d) (end_of tp d) (?is ! k) + 0.008 * gauss s (c + k))"
    by blast
  have "r' = simulated_series gauss tp baseline effect d s c"
  proof (rule nth_equalityI)
    show "length r' = length (simulated_series gauss tp baseline effect d s c)"
      using r'(2) by (simp add: simulated_series_def)
  next
    fix j assume "j < length r'"
    then have j: "j < tp" using r'(2) assms by simp
    show "r' ! j = simulated_series gauss tp baseline effect d s c ! j"
    proof (cases "?st \<le> j")
      case True
      then have k: "j - ?st < length ?is" "?is ! (j - ?st) = j" using j by auto
      from r'(4) k(1) have "r' ! (?is ! (j - ?st)) =
        baseline ! (?is ! (j - ?st)) *
          (1 + phase_value effect ?st (ramp_of d) (end_of tp d) (?is ! (j - ?st))
             + 0.008 * gauss s (c + (j - ?st)))" by blast
      then show ?thesis using True j assms k(2) by (simp add: simulated_series_def)
    next
      case False
      then have "j \<notin> set ?is" by simp
      then have "r' ! j = baseline ! j" using r'(3) by blast
      then show ?thesis using False j assms by (simp add: simulated_series_def)
    qed
  qed
  then show ?thesis using r'(1) by (simp add: simulate_region_def bindE_def)
qed

lemma regions_loop_closed:
  assumes "distinct rs"
    "\<forall>r\<in>set rs. \<forall>b. prices eng r = Some b \<longrightarrow> length b = length (dates eng)"
  shows "regions_loop gauss eng effects (Num d) rs (s, c) sim =
     Inr (sim @ concat (map (\<lambda>r. region_entry gauss eng effects d s
                 (c + regions_before eng rs r * (length (dates eng) - start_of (length (dates eng)))) r) rs),
          (s, c + length (filter (\<lambda>r. prices eng r \<noteq> None) rs)
                   * (length (dates eng) - start_of (length (dates eng)))))"
  using assms
proof (induction rs arbitrary: c sim)
  case Nil
  then show ?case by simp
next
  case (Cons x xs)
  let ?n = "length (dates eng) - start_of (length (dates eng))"
  have d: "distinct xs" "x \<notin> set xs" using Cons.prems by auto
  have l: "\<forall>r\<in>set xs. \<forall>b. prices eng r = Some b \<longrightarrow> length b = length (dates eng)"
    using Cons.prems by auto
  let ?f = "\<lambda>rs c r. region_entry gauss eng effects d s (c + regions_before eng rs r * ?n) r"
  show ?case
  proof (cases "prices eng x")
    case None
    have eq: "map (?f (x # xs) c) xs = map (?f xs c) xs"
      using d(2) None by (intro map_cong) auto
    have hd: "?f (x # xs) c x = []" using None by (simp add: region_entry_def)
    have step: "regions_loop gauss eng effects (Num d) (x # xs) (s, c) sim
        = regions_loop gauss eng effects (Num d) xs (s, c) sim"
      using None by simp
    have cnt: "length (filter (\<lambda>r. prices eng r \<noteq> None) (x # xs))
        = length (filter (\<lambda>r. prices eng r \<noteq> None) xs)" using None by simp
    have "concat (map (?f (x # xs) c) (x # xs)) = concat (map (?f xs c) xs)"
      by (simp only: list.map concat.simps hd eq append_Nil)
    then show ?thesis
      unfolding step cnt using Cons.IH[OF d(1) l, of c sim] by (simp del: regions_before.simps)
  next
    case (Some b)
    then have len: "length b = length (dates eng)" using Cons.prems by auto
    let ?e = "case effects x of None \<Rightarrow> 0 | Some v \<Rightarrow> v"
    let ?ser = "simulated_series gauss (length (dates eng)) b ?e d s c"
    have eq: "map (?f (x # xs) c) xs = map (?f xs (c + ?n)) xs"
      using d(2) Some by (intro map_cong) (auto simp: add.assoc)
    have hd: "?f (x # xs) c x = [(x, ?ser)]" using Some by (simp add: region_entry_def)
    have step: "regions_loop gauss eng effects (Num d) (x # xs) (s, c) sim
        = regions_loop gauss eng effects (Num d) xs (s, c + ?n) (sim @ [(x, ?ser)])"
      using Some simulate_region_series[OF len, of gauss ?e d s c] by simp
    have cnt: "length (filter (\<lambda>r. prices eng r \<noteq> None) (x # xs))
        = Suc (length (filter (\<lambda>r. prices eng r \<noteq> None) xs))" using Some by simp
    have "concat (map (?f (x # xs) c) (x # xs)) = (x, ?ser) # concat (map (?f xs (c + ?n)) xs)"
      by (simp only: list.map concat.simps hd eq append_Cons append_Nil)
    then show ?thesis
      unfolding step cnt using Cons.IH[OF d(1) l, of "c + ?n" "sim @ [(x, ?ser)]"]
      by (simp del: regions_before.simps add: algebra_simps)
  qed
qed

lemma map_of_region_entries:
  assumes "distinct rs" "r \<in> set rs" "prices eng r = Some b"
  shows "map_of (concat (map (\<lambda>x. region_entry gauss eng effects d s (c x) x) rs)) r
       = Some (simulated_series gauss (length (dates eng)) b
                 (case effects r of None \<Rightarrow> 0 | Some v \<Rightarrow> v) d s (c r))"
  using assms
proof (induction rs)
  case Nil
  then show ?case by simp
next
  case (Cons x xs)
  show ?case
  proof (cases "x = r")
    case True
    then show ?thesis using Cons.prems(3) by (simp add: region_entry_def)
  next
    case False
    then have "map_of (region_entry gauss eng effects d s (c x) x) r = None"
      by (simp add: region_entry_def split: option.splits)
    then show ?thesis using False Cons by (simp add: map_add_def)
  qed
qed

lemma series_alignedD:
  "series_aligned eng \<Longrightarrow> r \<in> set regions \<Longrightarrow> prices eng r = Some b \<Longrightarrow> length b = length (dates eng)"
  by (auto simp: series_aligned_def list_all_iff split: option.splits)

lemma distinct_regions: "distinct regions"
  by (simp add: regions_def)

lemma apply_effects_closed:
  assumes "series_aligned eng" "param_get p ''duration_months'' (Num 12) = Num d"
  shows "apply_effects h gauss eng effects p g0 =
     Inr (concat (map (\<lambda>r. region_entry gauss eng effects d (seed_of h p)
                 (regions_before eng regions r * (length (dates eng) - start_of (length (dates eng)))) r) regions),
          (seed_of h p, length (filter (\<lambda>r. prices eng r \<noteq> None) regions)
                   * (length (dates eng) - start_of (length (dates eng)))))"
proof -
  have l: "\<forall>r\<in>set regions. \<forall>b. prices eng r = Some b \<longrightarrow> length b = length (dates eng)"
    using series_alignedD[OF assms(1)] by blast
  show ?thesis
    unfolding apply_effects_def assms(2) np_seed_def
    using regions_loop_closed[OF distinct_regions l, of gauss effects d "seed_of h p" 0 "[]"]
    by simp
qed

lemma example_aligned: "series_aligned example_engine"
  by (simp add: series_aligned_def example_engine_def regions_def)


text \<open>
  Claim C2, as the code has it. On a baseline whose series are as long as the dates, with
  a numeric duration, \<^verbatim>\<open>_apply_effects\<close> returns a series for every region that has
  prices. A period before \<open>start\<close> is the baseline price itself: no noise is drawn for
  it. A period \<open>i\<close> from \<open>start\<close> on is \<open>baseline[i] * (1 + phase_effect(i) + noise)\<close>,
  where the noise is 0.008 times one standard normal deviate of the generator seeded from
  the set of items of the resolved parameters (so the order of the items does not
  matter): the deviate at position \<open>k * (total_periods - start) + (i - start)\<close> for the
  region that is the \<open>k\<close>-th with prices in the order of the regions.
\<close>

theorem simulated_values:
  assumes "series_aligned eng" "param_get p ''duration_months'' (Num 12) = Num d"
    "r \<in> set regions" "prices eng r = Some b"
  shows "\<exists>sim g series.
           apply_effects h gauss eng effects p g0 = Inr (sim, g)
         \<and> map_of sim r = Some series
         \<and> length series = length b
         \<and> (\<forall>i < start_of (length b). series ! i = b ! i)
         \<and> (\<forall>i. start_of (length b) \<le> i \<and> i < length b \<longrightarrow>
              (\<exists>ce. effect_at (length b) d (case effects r of None \<Rightarrow> 0 | Some v \<Rightarrow> v) i = Inr ce
                  \<and> series ! i =
                      b ! i * (1 + ce + 0.008 * gauss (seed_of h p)
                         (regions_before eng regions r * (length b - start_of (length b))
                            + (i - start_of (length b))))))"
proof -
  let ?tp = "length (dates eng)"
  let ?e = "case effects r of None \<Rightarrow> 0 | Some v \<Rightarrow> v"
  let ?c = "regions_before eng regions r * (?tp - start_of ?tp)"
  let ?ser = "simulated_series gauss ?tp b ?e d (seed_of h p) ?c"
  have len: "length b = ?tp" by (rule series_alignedD[OF assms(1,3,4)])
  note cl = apply_effects_closed[OF assms(1,2), of h gauss effects g0]
  have m: "map_of (concat (map (\<lambda>x. region_entry gauss eng effects d (seed_of h p)
                 (regions_before eng regions x * (?tp - start_of ?tp)) x) regions)) r = Some ?ser"
    by (rule map_of_region_entries[OF distinct_regions assms(3,4)])
  have l: "length ?ser = length b" by (simp add: simulated_series_def)
  have pre: "\<forall>i < start_of (length b). ?ser ! i = b ! i"
    using start_of_le[of "length b"] by (auto simp: simulated_series_def len)
  have post: "\<forall>i. start_of (length b) \<le> i \<and> i < length b \<longrightarrow>
              (\<exists>ce. effect_at (length b) d ?e i = Inr ce
                  \<and> ?ser ! i =
                      b ! i * (1 + ce + 0.008 * gauss (seed_of h p)
                         (regions_before eng regions r * (length b - start_of (length b))
                            + (i - start_of (length b)))))"
  proof (intro allI impI)
    fix i assume i: "start_of (length b) \<le> i \<and> i < length b"
    then have "effect_at (length b) d ?e i
        = Inr (phase_value ?e (start_of (length b)) (ramp_of d) (end_of (length b) d) i)"
      by (simp add: effect_at_def current_effect_Inr)
    moreover have "?ser ! i = b ! i *
        (1 + phase_value ?e (start_of (length b)) (ramp_of d) (end_of (length b) d) i
           + 0.008 * gauss (seed_of h p) (?c + (i - start_of ?tp)))"
      using i by (simp add: simulated_series_def len)
    ultimately show "\<exists>ce. effect_at (length b) d ?e i = Inr ce
                  \<and> ?ser ! i =
                      b ! i * (1 + ce + 0.008 * gauss (seed_of h p)
                         (regions_before eng regions r * (length b - start_of (length b))
                            + (i - start_of (length b))))"
      by (simp add: len)
  qed
  show ?thesis
    using cl m l pre post by blast
qed


theorem simulated_values_witness:
  "series_aligned example_engine
   \<and> param_get Map.empty ''duration_months'' (Num 12) = Num 12
   \<and> ''us_ech'' \<in> set regions
   \<and> prices example_engine ''us_ech'' = Some [100, 100, 100, 100, 100]
   \<and> (\<exists>sim g series.
         apply_effects seven_hash unit_gauss example_engine Map.empty Map.empty (0, 0) = Inr (sim, g)
       \<and> map_of sim ''us_ech'' = Some series
       \<and> length series = 5
       \<and> series ! 0 = 100)"
proof -
  have a: "series_aligned example_engine" by (rule example_aligned)
  have b: "param_get Map.empty ''duration_months'' (Num 12) = Num 12" by (simp add: param_get_def)
  have c: "''us_ech'' \<in> set regions" by (simp add: regions_def)
  have d: "prices example_engine ''us_ech'' = Some [100, 100, 100, 100, 100]"
    by (simp add: example_engine_def)
  let ?b = "[100, 100, 100, 100, 100] :: real list"
  from simulated_values[OF a b c d, of seven_hash unit_gauss Map.empty "(0, 0)"]
  obtain sim g series where s:
    "apply_effects seven_hash unit_gauss example_engine Map.empty Map.empty (0, 0) = Inr (sim, g)"
    "map_of sim ''us_ech'' = Some series" "length series = length ?b"
    "\<forall>i < start_of (length ?b). series ! i = ?b ! i"
    by blast
  have "0 < start_of (length ?b)" by (simp add: start_of_div)
  with s(4) have "series ! 0 = ?b ! 0" by blast
  with s(1,2,3)
  have "apply_effects seven_hash unit_gauss example_engine Map.empty Map.empty (0, 0) = Inr (sim, g)
       \<and> map_of sim ''us_ech'' = Some series \<and> length series = 5 \<and> series ! 0 = 100"
    by simp
  then show ?thesis using a b c d by blast
qed

text \<open>
  The claim gives every period its draw of noise, the periods before \<open>start\<close> too. With
  a generator whose every deviate is 1, five periods and no effect, period 0 keeps the
  baseline price 100 while the four periods from \<open>start = 1\<close> on become
  \<open>100 * (1 + 0.008)\<close>, and four deviates have been drawn, not five.
\<close>

theorem no_noise_before_start_counterexample:
  "start_of 5 = 1 \<and>
   apply_effects seven_hash unit_gauss example_engine Map.empty Map.empty (0, 0)
     = Inr ([(''us_ech'', [100, 504 / 5, 504 / 5, 504 / 5, 504 / 5])], (7, 4))"
  by (simp add: apply_effects_def regions_def example_engine_def param_get_def
      simulate_region_def bindE_def start_of_div ramp_of_def floordiv_def end_of_def
      current_effect_def np_normal_def np_seed_def seed_of_def seven_hash_def unit_gauss_def)


section \<open>The forecast\<close>

lemma round_half_even_bounds: "\<lfloor>x\<rfloor> \<le> round_half_even x \<and> round_half_even x \<le> \<lfloor>x\<rfloor> + 1"
  by (simp add: round_half_even_def Let_def)

lemma round_half_even_mono:
  assumes "x \<le> y"
  shows "round_half_even x \<le> round_half_even y"
proof (cases "\<lfloor>x\<rfloor> = \<lfloor>y\<rfloor>")
  case True
  have "x - of_int \<lfloor>x\<rfloor> \<le> y - of_int \<lfloor>y\<rfloor>" using assms True by simp
  then show ?thesis unfolding round_half_even_def Let_def using True by auto
next
  case False
  have "\<lfloor>x\<rfloor> \<le> \<lfloor>y\<rfloor>" using assms by (rule floor_mono)
  with False have "\<lfloor>x\<rfloor> + 1 \<le> \<lfloor>y\<rfloor>" by simp
  with round_half_even_bounds[of x] round_half_even_bounds[of y] show ?thesis by linarith
qed

lemma py_round_mono: "x \<le> y \<Longrightarrow> py_round x n \<le> py_round y n"
proof -
  assume "x \<le> y"
  then have "x * 10 ^ n \<le> y * 10 ^ n" by simp
  then have "round_half_even (x * 10 ^ n) \<le> round_half_even (y * 10 ^ n)"
    by (rule round_half_even_mono)
  then show ?thesis by (simp add: py_round_def divide_right_mono)
qed

lemma np_std_nonneg: "0 \<le> np_std xs"
proof -
  have "0 \<le> sum_list (map (\<lambda>x. (x - np_mean xs)\<^sup>2) xs)"
    by (rule sum_list_nonneg) auto
  then have "0 \<le> np_mean (map (\<lambda>x. (x - np_mean xs)\<^sup>2) xs)"
    by (simp add: np_mean_def)
  then show ?thesis by (simp add: np_std_def)
qed

lemma enclosed_snoc:
  assumes "enclosed (pf, lb, ub)" "l \<le> a" "a \<le> u"
  shows "enclosed (pf @ [a], lb @ [l], ub @ [u])"
  using assms by (auto simp: enclosed_def nth_append)

lemma forecast_steps_enclosed:
  assumes "0 \<le> std_price" "enclosed acc"
  shows "enclosed (fst (forecast_steps gauss trnd mean_price std_price seas lmi is current g acc))
       \<and> length (fst (fst (forecast_steps gauss trnd mean_price std_price seas lmi is current g acc)))
           = length (fst acc) + length is"
  using assms(2)
proof (induction "is" arbitrary: current g acc)
  case Nil
  then show ?case by simp
next
  case (Cons i "is")
  obtain pf lb ub where acc: "acc = (pf, lb, ub)" by (cases acc) auto
  let ?cur = "current + trnd * 0.85 ^ i + (mean_price - current) * 0.08
                + (case seas of None \<Rightarrow> 0 | Some sv \<Rightarrow> sv ! ((lmi + i) mod 12))"
  let ?dr = "np_normal gauss g (std_price * 0.03)"
  let ?pt = "?cur + fst ?dr"
  let ?u = "std_price * sqrt (real (i + 1)) * 0.2"
  let ?acc' = "(pf @ [py_round ?pt 4], lb @ [py_round (?pt - 1.96 * ?u) 4],
               ub @ [py_round (?pt + 1.96 * ?u) 4])"
  have u: "0 \<le> ?u" using assms(1) by simp
  have e: "enclosed ?acc'"
  proof (rule enclosed_snoc)
    show "enclosed (pf, lb, ub)" using Cons.prems acc by simp
    show "py_round (?pt - 1.96 * ?u) 4 \<le> py_round ?pt 4" using u by (intro py_round_mono) simp
    show "py_round ?pt 4 \<le> py_round (?pt + 1.96 * ?u) 4" using u by (intro py_round_mono) simp
  qed
  have step: "forecast_steps gauss trnd mean_price std_price seas lmi (i # is) current g acc
      = forecast_steps gauss trnd mean_price std_price seas lmi is ?cur (snd ?dr) ?acc'"
    by (simp add: acc Let_def)
  show ?case unfolding step using Cons.IH[OF e, of ?cur "snd ?dr"] by (simp add: acc)
qed


lemma simple_region_Inr:
  assumes "prices_arr \<noteq> []"
  shows "\<exists>rf g'. simple_region gauss prices_arr months = Inr (rf, g')
           \<and> has_horizon months rf \<and> interval_ok rf"
proof -
  let ?out = "forecast_steps gauss
      (if length (drop (length prices_arr - 6) prices_arr) > 1
       then (last (drop (length prices_arr - 6) prices_arr)
             - hd (drop (length prices_arr - 6) prices_arr)) / 6 else 0)
      (np_mean prices_arr) (np_std prices_arr) (estimate_seasonality prices_arr 12)
      (length prices_arr mod 12) [0..<months] (last prices_arr) (np_seed 42) ([], [], [])"
  have e0: "enclosed ([], [], [])" by (simp add: enclosed_def)
  from forecast_steps_enclosed[OF np_std_nonneg e0]
  have e: "enclosed (fst ?out)" and l: "length (fst (fst ?out)) = months"
    by (simp_all del: forecast_steps.simps)
  let ?rf = "\<lparr>point = fst (fst ?out), lower_95 = fst (snd (fst ?out)),
              upper_95 = snd (snd (fst ?out)), trend = None, seasonality = None\<rparr>"
  have "simple_region gauss prices_arr months = Inr (?rf, snd ?out)"
    using assms by (simp add: simple_region_def Let_def del: forecast_steps.simps)
  moreover have "interval_ok ?rf" using e by (simp add: interval_ok_def)
  moreover have "has_horizon months ?rf" using e l by (simp add: has_horizon_def enclosed_def)
  ultimately show ?thesis by blast
qed

lemma simple_region_empty: "simple_region gauss [] months = Inl IndexError"
  by (simp add: simple_region_def)

lemma simple_regions_Inr:
  assumes "list_all (\<lambda>e. snd e \<noteq> []) sim"
    "list_all (\<lambda>e. has_horizon months (snd e) \<and> interval_ok (snd e)) fc"
  shows "\<exists>out g'. simple_regions gauss months sim g fc = Inr (out, g')
           \<and> map fst out = map fst fc @ map fst sim
           \<and> list_all (\<lambda>e. has_horizon months (snd e) \<and> interval_ok (snd e)) out"
  using assms
proof (induction sim arbitrary: g fc)
  case Nil
  then show ?case by simp
next
  case (Cons e sim)
  obtain region prices_arr where e: "e = (region, prices_arr)" by (cases e) auto
  with Cons.prems have ne: "prices_arr \<noteq> []" and rest: "list_all (\<lambda>e. snd e \<noteq> []) sim" by auto
  from simple_region_Inr[OF ne, of gauss months] obtain rf g1 where
    rf: "simple_region gauss prices_arr months = Inr (rf, g1)" "has_horizon months rf" "interval_ok rf"
    by blast
  have fc': "list_all (\<lambda>e. has_horizon months (snd e) \<and> interval_ok (snd e)) (fc @ [(region, rf)])"
    using Cons.prems(2) rf(2,3) by simp
  from Cons.IH[OF rest fc', of g1] show ?case using rf(1) e by simp
qed

lemma simple_regions_fails:
  "\<not> list_all (\<lambda>e. snd e \<noteq> []) sim \<Longrightarrow> simple_regions gauss months sim g fc = Inl IndexError"
proof (induction sim arbitrary: g fc)
  case Nil
  then show ?case by simp
next
  case (Cons e sim)
  obtain region prices_arr where e: "e = (region, prices_arr)" by (cases e) auto
  show ?case
  proof (cases "prices_arr = []")
    case True
    then show ?thesis using e by (simp add: simple_region_empty)
  next
    case False
    from simple_region_Inr[OF False, of gauss months] obtain rf g1 where
      "simple_region gauss prices_arr months = Inr (rf, g1)" by blast
    then show ?thesis using Cons e False by simp
  qed
qed

lemma generate_simple_forecast_Inr:
  assumes "generate_simple_forecast gauss eng sim months g = Inr fc"
  shows "dates eng \<noteq> [] \<and> list_all (\<lambda>e. snd e \<noteq> []) sim
       \<and> forecast_dates fc = map (\<lambda>i. add_months (last (dates eng)) (i + 1)) [0..<months]
       \<and> map fst (by_region fc) = map fst sim
       \<and> list_all (\<lambda>e. has_horizon months (snd e) \<and> interval_ok (snd e)) (by_region fc)
       \<and> model fc = ''simple_fallback''"
proof -
  have ne: "list_all (\<lambda>e. snd e \<noteq> []) sim"
  proof (rule ccontr)
    assume "\<not> list_all (\<lambda>e. snd e \<noteq> []) sim"
    from simple_regions_fails[OF this] assms show False
      by (simp add: generate_simple_forecast_def bindE_def)
  qed
  from simple_regions_Inr[OF ne, of months "[]" gauss g] obtain out g' where
    out: "simple_regions gauss months sim g [] = Inr (out, g')" "map fst out = map fst sim"
      "list_all (\<lambda>e. has_horizon months (snd e) \<and> interval_ok (snd e)) out"
    by auto
  from assms out(1) have d: "dates eng \<noteq> []"
    by (auto simp: generate_simple_forecast_def bindE_def forecast_dates_of_def split: if_splits)
  from assms out(1) d have
    "fc = \<lparr>by_region = out,
           forecast_dates = map (\<lambda>i. add_months (last (dates eng)) (i + 1)) [0..<months],
           model = ''simple_fallback'', confidence_interval = ''95%''\<rparr>"
    by (simp add: generate_simple_forecast_def bindE_def forecast_dates_of_def)
  then show ?thesis using out(2,3) d ne by simp
qed

lemma generate_simple_forecast_total:
  assumes "dates eng \<noteq> []" "list_all (\<lambda>e. snd e \<noteq> []) sim"
  shows "\<exists>fc. generate_simple_forecast gauss eng sim months g = Inr fc"
proof -
  from simple_regions_Inr[OF assms(2), of months "[]" gauss g] obtain out g' where
    "simple_regions gauss months sim g [] = Inr (out, g')" by auto
  then show ?thesis using assms(1)
    by (simp add: generate_simple_forecast_def bindE_def forecast_dates_of_def)
qed

lemma length_tail: "length (tail n xs) = min n (length xs)"
  by (auto simp: tail_def)

lemma tail_nth: "j < length (tail n xs) \<Longrightarrow> tail n xs ! j = xs ! (length xs - n + j)"
  by (simp add: tail_def)

lemma prophet_region_Inr:
  assumes "prophet_region predict eng p ongoing months prices_arr g = Inr (rf, g')"
  shows "(prophet_rows predict \<longrightarrow> has_horizon months rf)
       \<and> (prophet_intervals predict \<longrightarrow> interval_ok rf)"
proof -
  from assms obtain inp cols where
    pr: "predict inp g = Inr (cols, g')" and
    inp: "ds_column inp = dates eng" "periods inp = months" and
    rf: "rf = \<lparr>point = map (\<lambda>x. py_round x 4) (tail months (yhat cols)),
              lower_95 = map (\<lambda>x. py_round x 4) (tail months (yhat_lower cols)),
              upper_95 = map (\<lambda>x. py_round x 4) (tail months (yhat_upper cols)),
              trend = Some (map (\<lambda>x. py_round x 4) (tail months (trend_column cols))),
              seasonality = map_option (\<lambda>c. map (\<lambda>x. py_round x 4) (tail months c))
                              (yearly cols)\<rparr>"
    by (auto simp: prophet_region_def bindE_def Let_def split: sum.splits if_splits)
  show ?thesis
  proof (intro conjI impI)
    assume "prophet_rows predict"
    with pr inp have "length (yhat cols) = length (dates eng) + months"
      "length (yhat_lower cols) = length (dates eng) + months"
      "length (yhat_upper cols) = length (dates eng) + months"
      unfolding prophet_rows_def by metis+
    then show "has_horizon months rf" by (simp add: has_horizon_def rf length_tail)
  next
    assume "prophet_intervals predict"
    with pr have l: "length (yhat_lower cols) = length (yhat cols)"
      "length (yhat_upper cols) = length (yhat cols)"
      and b: "\<forall>j < length (yhat cols).
           yhat_lower cols ! j \<le> yhat cols ! j \<and> yhat cols ! j \<le> yhat_upper cols ! j"
      unfolding prophet_intervals_def by blast+
    show "interval_ok rf"
      unfolding interval_ok_def enclosed_def
    proof (intro conjI allI impI)
      show "length (fst (snd (point rf, lower_95 rf, upper_95 rf))) = length (fst (point rf, lower_95 rf, upper_95 rf))"
        using l by (simp add: rf length_tail)
      show "length (snd (snd (point rf, lower_95 rf, upper_95 rf))) = length (fst (point rf, lower_95 rf, upper_95 rf))"
        using l by (simp add: rf length_tail)
    next
      fix j assume "j < length (fst (point rf, lower_95 rf, upper_95 rf))"
      then have j: "j < length (tail months (yhat cols))" by (simp add: rf)
      then have k: "length (yhat cols) - months + j < length (yhat cols)"
        by (simp add: tail_def)
      from j l have jl: "j < length (tail months (yhat_lower cols))"
        and ju: "j < length (tail months (yhat_upper cols))" by (simp_all add: length_tail)
      have "tail months (yhat_lower cols) ! j \<le> tail months (yhat cols) ! j"
        using b k by (simp add: tail_nth[OF j] tail_nth[OF jl] l)
      then show "fst (snd (point rf, lower_95 rf, upper_95 rf)) ! j \<le> fst (point rf, lower_95 rf, upper_95 rf) ! j"
        using j jl by (simp add: rf py_round_mono)
      have "tail months (yhat cols) ! j \<le> tail months (yhat_upper cols) ! j"
        using b k by (simp add: tail_nth[OF j] tail_nth[OF ju] l)
      then show "fst (point rf, lower_95 rf, upper_95 rf) ! j \<le> snd (snd (point rf, lower_95 rf, upper_95 rf)) ! j"
        using j ju by (simp add: rf py_round_mono)
    qed
  qed
qed

lemma prophet_regions_Inr:
  assumes "prophet_regions predict eng p ongoing months sim g fc = Inr (out, g')"
  shows "map fst out = map fst fc @ map fst sim
       \<and> (prophet_rows predict \<longrightarrow> list_all (\<lambda>e. has_horizon months (snd e)) fc
            \<longrightarrow> list_all (\<lambda>e. has_horizon months (snd e)) out)
       \<and> (prophet_intervals predict \<longrightarrow> list_all (\<lambda>e. interval_ok (snd e)) fc
            \<longrightarrow> list_all (\<lambda>e. interval_ok (snd e)) out)"
  using assms
proof (induction sim arbitrary: g fc)
  case Nil
  then show ?case by simp
next
  case (Cons e sim)
  obtain region prices_arr where e: "e = (region, prices_arr)" by (cases e) auto
  from Cons.prems e obtain rf g1 where
    rf: "prophet_region predict eng p ongoing months prices_arr g = Inr (rf, g1)"
    and rest: "prophet_regions predict eng p ongoing months sim g1 (fc @ [(region, rf)]) = Inr (out, g')"
    by (auto split: sum.splits)
  from Cons.IH[OF rest] prophet_region_Inr[OF rf] show ?case using e by auto
qed

lemma generate_prophet_forecast_Inr:
  assumes "generate_prophet_forecast predict eng sim p months g = Inr fc"
  shows "dates eng \<noteq> []
       \<and> forecast_dates fc = map (\<lambda>i. add_months (last (dates eng)) (i + 1)) [0..<months]
       \<and> map fst (by_region fc) = map fst sim
       \<and> (prophet_rows predict \<longrightarrow> list_all (\<lambda>e. has_horizon months (snd e)) (by_region fc))
       \<and> (prophet_intervals predict \<longrightarrow> list_all (\<lambda>e. interval_ok (snd e)) (by_region fc))
       \<and> model fc = ''prophet''"
proof -
  from assms obtain d out g' where
    out: "prophet_regions predict eng p
            (real (length (dates eng)) < real (start_of (length (dates eng))) + d)
            months sim g [] = Inr (out, g')"
    and d: "dates eng \<noteq> []"
    and fc: "fc = \<lparr>by_region = out,
           forecast_dates = map (\<lambda>i. add_months (last (dates eng)) (i + 1)) [0..<months],
           model = ''prophet'', confidence_interval = ''95%''\<rparr>"
    by (auto simp: generate_prophet_forecast_def bindE_def Let_def forecast_dates_of_def
        split: sum.splits if_splits)
  from prophet_regions_Inr[OF out] show ?thesis using d fc by simp
qed

lemma generate_forecast_cases:
  assumes "generate_forecast E eng sim p months g = Inr fc"
  shows "(PROPHET_AVAILABLE E \<and> generate_prophet_forecast (prophet_predict E) eng sim p months g = Inr fc)
       \<or> generate_simple_forecast (np_gauss E) eng sim months g = Inr fc"
  using assms by (auto simp: generate_forecast_def split: if_splits sum.splits)

lemma generate_forecast_total:
  assumes "dates eng \<noteq> []" "list_all (\<lambda>e. snd e \<noteq> []) sim"
  shows "\<exists>fc. generate_forecast E eng sim p months g = Inr fc"
  using generate_simple_forecast_total[OF assms, of "np_gauss E" months g]
  by (auto simp: generate_forecast_def split: sum.splits)

lemma add_months_calendar:
  assumes "1 \<le> month d"
  shows "year (add_months d k) * 12 + month (add_months d k) = year d * 12 + month d + k"
    "1 \<le> month (add_months d k)" "month (add_months d k) \<le> 12"
    "day (add_months d k)
       = min (day d) (days_in_month (year (add_months d k)) (month (add_months d k)))"
proof -
  let ?t = "month d - 1 + k"
  have "(year d + ?t div 12) * 12 + (?t mod 12 + 1) = year d * 12 + (?t div 12 * 12 + ?t mod 12) + 1"
    by (simp add: algebra_simps)
  also have "\<dots> = year d * 12 + ?t + 1" by simp
  also have "\<dots> = year d * 12 + month d + k" using assms by simp
  finally show "year (add_months d k) * 12 + month (add_months d k) = year d * 12 + month d + k"
    by (simp add: add_months_def Let_def)
  show "1 \<le> month (add_months d k)" by (simp add: add_months_def Let_def)
  have "?t mod 12 < 12" by simp
  then show "month (add_months d k) \<le> 12" by (simp add: add_months_def Let_def)
  show "day (add_months d k)
       = min (day d) (days_in_month (year (add_months d k)) (month (add_months d k)))"
    by (simp add: add_months_def Let_def)
qed




lemma flat_prophet_rows: "prophet_rows flat_prophet"
  by (auto simp: prophet_rows_def flat_prophet_def Let_def)

lemma py_round_int: "py_round (real_of_int k) n = real_of_int k"
  by (simp add: py_round_def round_half_even_def)

lemma example_forecast:
  "generate_forecast example_env example_engine [(''us_ech'', [100, 100, 100, 100, 100])]
     [''duration_months'' \<mapsto> Num 1] 1 (0, 0)
   = Inr \<lparr>by_region = [(''us_ech'', \<lparr>point = [1], lower_95 = [0], upper_95 = [2],
                                      trend = Some [1], seasonality = None\<rparr>)],
          forecast_dates = [\<lparr>year = 2020, month = 6, day = 30\<rparr>],
          model = ''prophet'', confidence_interval = ''95%''\<rparr>"
proof -
  have r: "py_round 1 4 = 1" "py_round 0 4 = 0" "py_round 2 4 = 2"
    using py_round_int[of 1 4] py_round_int[of 0 4] py_round_int[of 2 4] by simp_all
  show ?thesis
    by (simp add: generate_forecast_def example_env_def generate_prophet_forecast_def
        getnum_def param_get_def bindE_def Let_def example_engine_def start_of_div
        prophet_region_def flat_prophet_def tail_def r forecast_dates_of_def add_months_def
        days_in_month_def)
qed


text \<open>
  Claim C9. For every horizon \<open>months\<close>, on an engine with dates and simulated series
  that are not empty \<^verbatim>\<open>_generate_forecast\<close> returns a forecast; a forecast it
  returns has \<open>months\<close> dates, the \<open>i\<close>-th being the last historical date advanced by
  \<open>i + 1\<close> calendar months, and one entry for each simulated region with \<open>months\<close>
  points, lower bounds and upper bounds (under the Prophet strategy: when the library
  predicts one row per period of the history and of the future). Advancing a date by
  \<open>k\<close> months adds \<open>k\<close> to the count of months \<open>12 * year + month\<close> and keeps the
  day, cut to the length of the month reached: it is not a fixed number of days.
\<close>

theorem forecast_horizon:
  "(dates eng \<noteq> [] \<and> list_all (\<lambda>e. snd e \<noteq> []) sim \<longrightarrow>
      (\<exists>fc. generate_forecast E eng sim p months g = Inr fc))
   \<and> (generate_forecast E eng sim p months g = Inr fc
        \<and> (model fc = ''prophet'' \<longrightarrow> prophet_rows (prophet_predict E)) \<longrightarrow>
          length (forecast_dates fc) = months
        \<and> (\<forall>i < months. forecast_dates fc ! i = add_months (last (dates eng)) (i + 1))
        \<and> map fst (by_region fc) = map fst sim
        \<and> list_all (\<lambda>e. length (point (snd e)) = months
                      \<and> length (lower_95 (snd e)) = months
                      \<and> length (upper_95 (snd e)) = months) (by_region fc))
   \<and> (1 \<le> month d \<longrightarrow>
          year (add_months d k) * 12 + month (add_months d k) = year d * 12 + month d + k
        \<and> 1 \<le> month (add_months d k) \<and> month (add_months d k) \<le> 12
        \<and> day (add_months d k)
            = min (day d) (days_in_month (year (add_months d k)) (month (add_months d k))))"
proof (intro conjI impI)
  assume "dates eng \<noteq> [] \<and> list_all (\<lambda>e. snd e \<noteq> []) sim"
  then show "\<exists>fc. generate_forecast E eng sim p months g = Inr fc"
    using generate_forecast_total by blast
next
  assume a: "generate_forecast E eng sim p months g = Inr fc
        \<and> (model fc = ''prophet'' \<longrightarrow> prophet_rows (prophet_predict E))"
  then have gf: "generate_forecast E eng sim p months g = Inr fc" ..
  have f: "forecast_dates fc = map (\<lambda>i. add_months (last (dates eng)) (i + 1)) [0..<months]
      \<and> map fst (by_region fc) = map fst sim
      \<and> list_all (\<lambda>e. has_horizon months (snd e)) (by_region fc)"
    using generate_forecast_cases[OF gf]
  proof
    assume "PROPHET_AVAILABLE E \<and>
      generate_prophet_forecast (prophet_predict E) eng sim p months g = Inr fc"
    then have b: "generate_prophet_forecast (prophet_predict E) eng sim p months g = Inr fc" ..
    from generate_prophet_forecast_Inr[OF b] a show ?thesis by blast
  next
    assume "generate_simple_forecast (np_gauss E) eng sim months g = Inr fc"
    from generate_simple_forecast_Inr[OF this] show ?thesis by (simp add: list_all_iff)
  qed
  from f show "length (forecast_dates fc) = months" by simp
  from f show "\<forall>i < months. forecast_dates fc ! i = add_months (last (dates eng)) (i + 1)" by simp
  from f show "map fst (by_region fc) = map fst sim" by simp
  from f show "list_all (\<lambda>e. length (point (snd e)) = months
                      \<and> length (lower_95 (snd e)) = months
                      \<and> length (upper_95 (snd e)) = months) (by_region fc)"
    by (simp add: has_horizon_def)
next
  assume m: "1 \<le> month d"
  show "year (add_months d k) * 12 + month (add_months d k) = year d * 12 + month d + k"
    by (rule add_months_calendar(1)[OF m])
  show "1 \<le> month (add_months d k)" by (rule add_months_calendar(2)[OF m])
  show "month (add_months d k) \<le> 12" by (rule add_months_calendar(3)[OF m])
  show "day (add_months d k)
            = min (day d) (days_in_month (year (add_months d k)) (month (add_months d k)))"
    by (rule add_months_calendar(4)[OF m])
qed

theorem forecast_horizon_witness:
  "dates example_engine \<noteq> []
   \<and> generate_forecast example_env example_engine [(''us_ech'', [100, 100, 100, 100, 100])]
       [''duration_months'' \<mapsto> Num 1] 1 (0, 0)
     = Inr \<lparr>by_region = [(''us_ech'', \<lparr>point = [1], lower_95 = [0], upper_95 = [2],
                                        trend = Some [1], seasonality = None\<rparr>)],
            forecast_dates = [\<lparr>year = 2020, month = 6, day = 30\<rparr>],
            model = ''prophet'', confidence_interval = ''95%''\<rparr>
   \<and> prophet_rows (prophet_predict example_env)
   \<and> add_months (last (dates example_engine)) 1 = \<lparr>year = 2020, month = 6, day = 30\<rparr>
   \<and> year (add_months \<lparr>year = 2020, month = 5, day = 31\<rparr> 1) * 12
       + month (add_months \<lparr>year = 2020, month = 5, day = 31\<rparr> 1) = 2020 * 12 + 5 + 1"
proof -
  have pr: "prophet_rows (prophet_predict example_env)"
    by (simp add: example_env_def flat_prophet_rows)
  have ne: "dates example_engine \<noteq> []" by (simp add: example_engine_def)
  note h = forecast_horizon[of example_engine "[(''us_ech'', [100, 100, 100, 100, 100])]"
      example_env "[''duration_months'' \<mapsto> Num 1]" 1 "(0, 0)"
      "\<lparr>by_region = [(''us_ech'', \<lparr>point = [1], lower_95 = [0], upper_95 = [2],
                                        trend = Some [1], seasonality = None\<rparr>)],
            forecast_dates = [\<lparr>year = 2020, month = 6, day = 30\<rparr>],
            model = ''prophet'', confidence_interval = ''95%''\<rparr>"
      "\<lparr>year = 2020, month = 5, day = 31\<rparr>" 1]
  from h example_forecast pr have
    "\<forall>i < 1. [\<lparr>year = 2020, month = 6, day = 30\<rparr>] ! i
        = add_months (last (dates example_engine)) (i + 1)"
    by simp
  then have d: "add_months (last (dates example_engine)) 1 = \<lparr>year = 2020, month = 6, day = 30\<rparr>"
    by simp
  from h have "year (add_months \<lparr>year = 2020, month = 5, day = 31\<rparr> 1) * 12
       + month (add_months \<lparr>year = 2020, month = 5, day = 31\<rparr> 1) = 2020 * 12 + 5 + 1"
    by simp
  then show ?thesis using ne example_forecast pr d by blast
qed

lemma simple_regions_state:
  "map_sum id fst (simple_regions gauss months sim g0 fc)
     = map_sum id fst (simple_regions gauss months sim g1 fc)"
proof (cases sim)
  case Nil
  then show ?thesis by simp
next
  case (Cons e rest)
  obtain region prices_arr where "e = (region, prices_arr)" by (cases e) auto
  then show ?thesis using Cons by (simp split: sum.splits)
qed

lemma generate_simple_forecast_state:
  "generate_simple_forecast gauss eng sim months g0
     = generate_simple_forecast gauss eng sim months g1"
proof -
  have "bindE (simple_regions gauss months sim g0 []) f
      = bindE (map_sum id fst (simple_regions gauss months sim g0 [])) (\<lambda>x. f' x)"
    if "\<And>out. f out = f' (fst out)" for f and f' :: "(string \<times> region_forecast) list \<Rightarrow> error + forecast"
    and g0
    using that by (cases "simple_regions gauss months sim g0 []") (simp_all add: bindE_def)
  note r = this
  let ?f' = "\<lambda>x. bindE (forecast_dates_of eng months) (\<lambda>ds.
       Inr \<lparr>by_region = x, forecast_dates = ds, model = ''simple_fallback'',
            confidence_interval = ''95%''\<rparr>)"
  show ?thesis
    unfolding generate_simple_forecast_def
    using r[of _ ?f' g0] r[of _ ?f' g1] simple_regions_state[of gauss months sim g0 "[]" g1]
    by simp
qed

text \<open>
  Claim C4. The result of \<^verbatim>\<open>apply_scenario\<close> for a scenario and custom parameters
  does not depend on the state in which earlier calls left the global generator:
  \<^verbatim>\<open>_apply_effects\<close> reseeds it from the resolved parameters and the fallback forecast
  reseeds it with 42 for every region. Two calls with the same arguments on the same
  engine therefore return the same result, simulated prices and forecast included.
\<close>

theorem apply_scenario_deterministic:
  "apply_scenario E eng g0 scen_id custom_params = apply_scenario E eng g1 scen_id custom_params
   \<and> apply_effects h gauss eng effects p g0 = apply_effects h gauss eng effects p g1
   \<and> generate_simple_forecast gauss eng sim months g0
       = generate_simple_forecast gauss eng sim months g1"
proof (intro conjI)
  show e: "apply_effects h gauss eng effects p g0 = apply_effects h gauss eng effects p g1"
    for h gauss effects p
    by (simp add: apply_effects_def)
  show "apply_scenario E eng g0 scen_id custom_params
      = apply_scenario E eng g1 scen_id custom_params"
    unfolding apply_scenario_def using e by (simp cong: option.case_cong)
  show "generate_simple_forecast gauss eng sim months g0
       = generate_simple_forecast gauss eng sim months g1"
    by (rule generate_simple_forecast_state)
qed


section \<open>\<^verbatim>\<open>apply_scenario\<close>: parameters and effects\<close>

lemma merge_fold:
  "fold (\<lambda>(key, v) ps. if ps key \<noteq> None then ps(key \<mapsto> v) else ps) items ps k
     = (if ps k = None then None
        else (case map_of (rev items) k of None \<Rightarrow> ps k | Some v \<Rightarrow> Some v))"
proof (induction items arbitrary: ps)
  case Nil
  then show ?case by auto
next
  case (Cons e items)
  obtain key v where e: "e = (key, v)" by (cases e) auto
  show ?case
    using Cons.IH[of "if ps key \<noteq> None then ps(key \<mapsto> v) else ps"]
    by (auto simp: e map_add_def split: option.splits)
qed

lemma merge_params_lookup:
  "merge_params defaults (Some items) k
     = (if defaults k = None then None
        else (case map_of (rev items) k of None \<Rightarrow> defaults k | Some v \<Rightarrow> Some v))"
  using merge_fold[of items defaults k] by (simp add: merge_params_def)

lemma merge_params_dom: "dom (merge_params defaults cp) = dom defaults"
proof (cases cp)
  case None
  then show ?thesis by (simp add: merge_params_def)
next
  case (Some items)
  then show ?thesis by (auto simp: merge_params_lookup dom_def split: option.splits if_splits)
qed

lemma merge_params_unknown:
  assumes "defaults k = None"
  shows "merge_params defaults (Some (xs @ (k, v) # ys)) = merge_params defaults (Some (xs @ ys))"
proof
  fix k'
  show "merge_params defaults (Some (xs @ (k, v) # ys)) k' = merge_params defaults (Some (xs @ ys)) k'"
    using assms by (cases "k' = k") (auto simp: merge_params_lookup map_add_def split: option.splits)
qed

lemma merge_params_empty: "merge_params defaults (Some []) = merge_params defaults None"
  by (simp add: merge_params_def)

lemma apply_scenario_params:
  assumes "merge_params (parameters sc) cp = merge_params (parameters sc) cp'"
    "get_scenario scen_id = Some sc"
  shows "apply_scenario E eng g0 scen_id cp = apply_scenario E eng g0 scen_id cp'"
  using assms by (simp add: apply_scenario_def)

lemma apply_scenario_Inr:
  assumes "apply_scenario E eng g0 scen_id cp = Inr r"
  shows "\<exists>sc. get_scenario scen_id = Some sc
            \<and> parameters_used r = merge_params (parameters sc) cp
            \<and> (\<exists>effects. calculate_price_effects sc (merge_params (parameters sc) cp) = Inr effects
                  \<and> price_effects r = (\<lambda>k. map_option (\<lambda>v. py_round (v * 100) 2) (effects k)))"
  using assms
  by (auto simp: apply_scenario_def bindE_def Let_def split: option.splits sum.splits)

lemma region_entry_nonempty:
  assumes "length (dates eng) \<noteq> 0" "series_aligned eng" "r \<in> set regions"
  shows "list_all (\<lambda>e. snd e \<noteq> []) (region_entry gauss eng effects d s c r)"
proof (cases "prices eng r")
  case None
  then show ?thesis by (simp add: region_entry_def)
next
  case (Some b)
  from series_alignedD[OF assms(2,3) Some] assms(1) have "b \<noteq> []" by auto
  then show ?thesis using Some by (simp add: region_entry_def simulated_series_def)
qed

lemma apply_effects_nonempty:
  assumes "series_aligned eng" "param_get p ''duration_months'' (Num 12) = Num d"
    "dates eng \<noteq> []"
  shows "\<exists>sim g. apply_effects h gauss eng effects p g0 = Inr (sim, g)
           \<and> list_all (\<lambda>e. snd e \<noteq> []) sim"
proof -
  have "list_all (\<lambda>e. snd e \<noteq> [])
     (concat (map (\<lambda>r. region_entry gauss eng effects d (seed_of h p) (c r) r) regions))" for c
    using region_entry_nonempty[OF _ assms(1)] assms(3)
    by (auto simp: list_all_iff)
  from this[of "\<lambda>r. regions_before eng regions r
      * (length (dates eng) - start_of (length (dates eng)))"]
  show ?thesis
    unfolding apply_effects_closed[OF assms(1,2), of h gauss effects g0] by simp
qed

lemma metrics_loop_total:
  assumes "list_all (\<lambda>e. snd e \<noteq> []) sim"
    "list_all (\<lambda>r. case prices eng r of None \<Rightarrow> True | Some b \<Rightarrow> np_mean b \<noteq> 0) rs"
  shows "\<exists>ms. metrics_loop eng sim rs acc = Inr ms"
  using assms(2)
proof (induction rs arbitrary: acc)
  case Nil
  then show ?case by simp
next
  case (Cons r rs)
  then have rest: "list_all (\<lambda>r. case prices eng r of None \<Rightarrow> True | Some b \<Rightarrow> np_mean b \<noteq> 0) rs"
    by simp
  show ?case
  proof (cases "map_of sim r")
    case None
    then show ?thesis using Cons.IH[OF rest] by simp
  next
    case (Some series)
    then have "(r, series) \<in> set sim" by (rule map_of_SomeD)
    with assms(1) have ne: "series \<noteq> []" by (auto simp: list_all_iff)
    show ?thesis
    proof (cases "prices eng r")
      case None
      then show ?thesis using Some Cons.IH[OF rest] by simp
    next
      case (Some b)
      with Cons.prems have "np_mean b \<noteq> 0" by simp
      then obtain m where "region_metrics_of b series = Inr m"
        using ne by (simp add: region_metrics_of_def Let_def)
      then show ?thesis using Some \<open>map_of sim r = Some series\<close> Cons.IH[OF rest] by simp
    qed
  qed
qed

lemma apply_scenario_total:
  assumes "get_scenario scen_id = Some sc"
    "calculate_price_effects sc (merge_params (parameters sc) cp) = Inr effects"
    "param_get (merge_params (parameters sc) cp) ''duration_months'' (Num 12) = Num d"
    "dates eng \<noteq> []" "series_aligned eng" "means_nonzero eng"
  shows "\<exists>r. apply_scenario E eng g0 scen_id cp = Inr r"
proof -
  let ?p = "merge_params (parameters sc) cp"
  from apply_effects_nonempty[OF assms(5,3,4), of "py_hash E" "np_gauss E" effects g0]
  obtain sim g where sim: "apply_effects (py_hash E) (np_gauss E) eng effects ?p g0 = Inr (sim, g)"
    "list_all (\<lambda>e. snd e \<noteq> []) sim" by blast
  from metrics_loop_total[OF sim(2), of eng regions "[]"] assms(6)
  obtain ms where ms: "calculate_metrics eng sim = Inr ms"
    by (auto simp: calculate_metrics_def means_nonzero_def)
  from generate_forecast_total[OF assms(4) sim(2), of E ?p 12 g]
  obtain fc where fc: "generate_forecast E eng sim ?p 12 g = Inr fc" by blast
  show ?thesis
    using assms(1,2) sim(1) ms fc by (simp add: apply_scenario_def bindE_def)
qed

lemma example_means: "means_nonzero example_engine"
  by (simp add: means_nonzero_def example_engine_def regions_def np_mean_def)

lemma example_dates: "dates example_engine \<noteq> []"
  by (simp add: example_engine_def)

lemma get_scenario_6:
  "get_scenario 6 = Some \<lparr>sid = 6, name = ''EU Regulatory Impact'', category = ''regulatory'',
         affected_regions = [''eu''],
         parameters = [''supply_reduction'' \<mapsto> Num 0.15, ''compliance_cost'' \<mapsto> Num 0.10,
                       ''duration_months'' \<mapsto> Num 36],
         logic = Some ''eu_regulatory''\<rparr>"
  by (simp add: get_scenario_def SCENARIOS_def)

lemma py_round_hundredths: "py_round (real_of_int k / 100) 2 = real_of_int k / 100"
  by (simp add: py_round_def round_half_even_def)

lemma eu_general:
  "getnum p ''supply_reduction'' 0.15 = Inr supply_cut \<Longrightarrow>
   getnum p ''compliance_cost'' 0.10 = Inr compliance \<Longrightarrow>
   getnum p ''duration_months'' 36 = Inr duration_months \<Longrightarrow>
   logic_eu_regulatory p =
     Inr [''us_ech'' \<mapsto> supply_cut * 0.02,
          ''eu_ech'' \<mapsto> (supply_cut * 0.5 + compliance) * min (duration_months / 12) 2,
          ''asia_ech'' \<mapsto> - supply_cut * 0.02,
          ''china_ech'' \<mapsto> - supply_cut * 0.03]"
  by (simp add: logic_eu_regulatory_def bindE_def Let_def effects_of_def)

lemma eu_defaults:
  "calculate_price_effects
     \<lparr>sid = 6, name = ''EU Regulatory Impact'', category = ''regulatory'',
         affected_regions = [''eu''],
         parameters = [''supply_reduction'' \<mapsto> Num 0.15, ''compliance_cost'' \<mapsto> Num 0.10,
                       ''duration_months'' \<mapsto> Num 36],
         logic = Some ''eu_regulatory''\<rparr>
     [''supply_reduction'' \<mapsto> Num 0.15, ''compliance_cost'' \<mapsto> Num 0.10,
                       ''duration_months'' \<mapsto> Num 36]
   = Inr [''us_ech'' \<mapsto> 0.15 * 0.02,
          ''eu_ech'' \<mapsto> (0.15 * 0.5 + 0.10) * min (36 / 12) 2,
          ''asia_ech'' \<mapsto> - 0.15 * 0.02,
          ''china_ech'' \<mapsto> - 0.15 * 0.03]"
proof -
  let ?p = "[''supply_reduction'' \<mapsto> Num 0.15, ''compliance_cost'' \<mapsto> Num 0.10,
                       ''duration_months'' \<mapsto> Num 36]"
  have "getnum ?p ''supply_reduction'' 0.15 = Inr 0.15"
    "getnum ?p ''compliance_cost'' 0.10 = Inr 0.10"
    "getnum ?p ''duration_months'' 36 = Inr 36"
    by (simp_all add: getnum_def param_get_def)
  from eu_general[OF this] show ?thesis
    by (simp add: calculate_price_effects_def handlers_def)
qed

text \<open>
  Claim C3. Scenario 6 is the EU regulatory scenario with the defaults
  \<open>supply_reduction = 0.15\<close>, \<open>compliance_cost = 0.10\<close>, \<open>duration_months = 36\<close>; its
  effect on the EU is \<open>(0.15 * 0.5 + 0.10) * min (36 / 12) 2 = 0.35\<close>, and every result of
  \<^verbatim>\<open>apply_scenario\<close> for it without custom parameters reports the price effect 35.0
  for \<^verbatim>\<open>eu_ech\<close> (with 0.3, \<open>- 0.3\<close> and \<open>- 0.45\<close> for the other regions). For any
  numeric parameters the formula gives \<open>supply_cut * 0.02\<close> to the US and
  \<open>- supply_cut * 0.02\<close>, \<open>- supply_cut * 0.03\<close> to Asia and China.
\<close>

theorem eu_regulatory_effect:
  "(\<exists>sc. get_scenario 6 = Some sc \<and> logic sc = Some ''eu_regulatory''
        \<and> parameters sc = [''supply_reduction'' \<mapsto> Num 0.15, ''compliance_cost'' \<mapsto> Num 0.10,
                            ''duration_months'' \<mapsto> Num 36]
        \<and> calculate_price_effects sc (merge_params (parameters sc) None)
            = Inr [''us_ech'' \<mapsto> 0.15 * 0.02,
                   ''eu_ech'' \<mapsto> (0.15 * 0.5 + 0.10) * min (36 / 12) 2,
                   ''asia_ech'' \<mapsto> - 0.15 * 0.02,
                   ''china_ech'' \<mapsto> - 0.15 * 0.03])
   \<and> (0.15 * 0.5 + 0.10) * min (36 / 12) 2 = (0.35 :: real)
   \<and> (apply_scenario E eng g0 6 None = Inr r \<longrightarrow>
         price_effects r
           = [''us_ech'' \<mapsto> 0.3, ''eu_ech'' \<mapsto> 35.0, ''asia_ech'' \<mapsto> - 0.3, ''china_ech'' \<mapsto> - 0.45])
   \<and> (getnum p ''supply_reduction'' 0.15 = Inr supply_cut
        \<and> getnum p ''compliance_cost'' 0.10 = Inr compliance
        \<and> getnum p ''duration_months'' 36 = Inr duration_months \<longrightarrow>
         logic_eu_regulatory p =
           Inr [''us_ech'' \<mapsto> supply_cut * 0.02,
                ''eu_ech'' \<mapsto> (supply_cut * 0.5 + compliance) * min (duration_months / 12) 2,
                ''asia_ech'' \<mapsto> - supply_cut * 0.02,
                ''china_ech'' \<mapsto> - supply_cut * 0.03])"
proof (intro conjI impI)
  show "\<exists>sc. get_scenario 6 = Some sc \<and> logic sc = Some ''eu_regulatory''
        \<and> parameters sc = [''supply_reduction'' \<mapsto> Num 0.15, ''compliance_cost'' \<mapsto> Num 0.10,
                            ''duration_months'' \<mapsto> Num 36]
        \<and> calculate_price_effects sc (merge_params (parameters sc) None)
            = Inr [''us_ech'' \<mapsto> 0.15 * 0.02,
                   ''eu_ech'' \<mapsto> (0.15 * 0.5 + 0.10) * min (36 / 12) 2,
                   ''asia_ech'' \<mapsto> - 0.15 * 0.02,
                   ''china_ech'' \<mapsto> - 0.15 * 0.03]"
    using get_scenario_6 eu_defaults by (simp add: merge_params_def)
next
  show "(0.15 * 0.5 + 0.10) * min (36 / 12) 2 = (0.35 :: real)" by simp
next
  assume a: "apply_scenario E eng g0 6 None = Inr r"
  from apply_scenario_Inr[OF a] get_scenario_6 eu_defaults
  have pe: "price_effects r = (\<lambda>k. map_option (\<lambda>v. py_round (v * 100) 2)
      ([''us_ech'' \<mapsto> 0.15 * 0.02,
        ''eu_ech'' \<mapsto> (0.15 * 0.5 + 0.10) * min (36 / 12) 2,
        ''asia_ech'' \<mapsto> - 0.15 * 0.02,
        ''china_ech'' \<mapsto> - 0.15 * 0.03] k))"
    by (auto simp: merge_params_def)
  have r: "py_round (3 / 10) 2 = 3 / 10" "py_round 35 2 = 35" "py_round (- (3 / 10)) 2 = - (3 / 10)"
    "py_round (- (9 / 20)) 2 = - (9 / 20)"
    using py_round_hundredths[of 30] py_round_hundredths[of 3500] py_round_hundredths[of "- 30"]
      py_round_hundredths[of "- 45"] by simp_all
  show "price_effects r
           = [''us_ech'' \<mapsto> 0.3, ''eu_ech'' \<mapsto> 35.0, ''asia_ech'' \<mapsto> - 0.3, ''china_ech'' \<mapsto> - 0.45]"
    unfolding pe by (rule ext) (simp add: r)
next
  assume "getnum p ''supply_reduction'' 0.15 = Inr supply_cut
        \<and> getnum p ''compliance_cost'' 0.10 = Inr compliance
        \<and> getnum p ''duration_months'' 36 = Inr duration_months"
  then show "logic_eu_regulatory p =
           Inr [''us_ech'' \<mapsto> supply_cut * 0.02,
                ''eu_ech'' \<mapsto> (supply_cut * 0.5 + compliance) * min (duration_months / 12) 2,
                ''asia_ech'' \<mapsto> - supply_cut * 0.02,
                ''china_ech'' \<mapsto> - supply_cut * 0.03]"
    using eu_general by blast
qed

lemma example_scenario_6:
  "\<exists>r. apply_scenario example_env example_engine (0, 0) 6 None = Inr r"
proof -
  let ?p = "[''supply_reduction'' \<mapsto> Num 0.15, ''compliance_cost'' \<mapsto> Num 0.10,
            ''duration_months'' \<mapsto> Num 36]"
  let ?sc = "\<lparr>sid = 6, name = ''EU Regulatory Impact'', category = ''regulatory'',
         affected_regions = [''eu''], parameters = ?p, logic = Some ''eu_regulatory''\<rparr>"
  have m: "merge_params (parameters ?sc) None = ?p" by (simp add: merge_params_def)
  have e: "calculate_price_effects ?sc (merge_params (parameters ?sc) None)
      = Inr [''us_ech'' \<mapsto> 0.15 * 0.02,
          ''eu_ech'' \<mapsto> (0.15 * 0.5 + 0.10) * min (36 / 12) 2,
          ''asia_ech'' \<mapsto> - 0.15 * 0.02,
          ''china_ech'' \<mapsto> - 0.15 * 0.03]"
    unfolding m by (rule eu_defaults)
  have d: "param_get (merge_params (parameters ?sc) None) ''duration_months'' (Num 12) = Num 36"
    unfolding m by (simp add: param_get_def)
  show ?thesis
    by (rule apply_scenario_total[OF get_scenario_6 e d example_dates example_aligned example_means])
qed

theorem eu_regulatory_effect_witness:
  "\<exists>r. apply_scenario example_env example_engine (0, 0) 6 None = Inr r
      \<and> price_effects r ''eu_ech'' = Some 35
      \<and> getnum Map.empty ''supply_reduction'' 0.15 = Inr 0.15
      \<and> getnum Map.empty ''compliance_cost'' 0.10 = Inr 0.10
      \<and> getnum Map.empty ''duration_months'' 36 = Inr 36
      \<and> logic_eu_regulatory Map.empty
          = Inr [''us_ech'' \<mapsto> 0.15 * 0.02,
                 ''eu_ech'' \<mapsto> (0.15 * 0.5 + 0.10) * min (36 / 12) 2,
                 ''asia_ech'' \<mapsto> - 0.15 * 0.02,
                 ''china_ech'' \<mapsto> - 0.15 * 0.03]"
proof -
  from example_scenario_6 obtain r where
    r: "apply_scenario example_env example_engine (0, 0) 6 None = Inr r" ..
  have g: "getnum Map.empty ''supply_reduction'' 0.15 = Inr 0.15"
    "getnum Map.empty ''compliance_cost'' 0.10 = Inr 0.10"
    "getnum Map.empty ''duration_months'' 36 = Inr 36"
    by (simp_all add: getnum_def param_get_def)
  note t = eu_regulatory_effect[of example_env example_engine "(0, 0)" r Map.empty
      "0.15" "0.10" 36]
  from t r have "price_effects r ''eu_ech'' = Some 35" by simp
  moreover from t g have "logic_eu_regulatory Map.empty
          = Inr [''us_ech'' \<mapsto> 0.15 * 0.02,
                 ''eu_ech'' \<mapsto> (0.15 * 0.5 + 0.10) * min (36 / 12) 2,
                 ''asia_ech'' \<mapsto> - 0.15 * 0.02,
                 ''china_ech'' \<mapsto> - 0.15 * 0.03]" by blast
  ultimately show ?thesis using r g by blast
qed

lemma map_of_rev_None: "k \<notin> fst ` set items \<Longrightarrow> map_of (rev items) k = None"
  by (simp add: map_of_eq_None_iff)

lemma map_of_rev_Some:
  "distinct (map fst items) \<Longrightarrow> (k, v) \<in> set items \<Longrightarrow> map_of (rev items) k = Some v"
  by (rule map_of_is_SomeI) (simp_all add: rev_map[symmetric])

text \<open>
  Claim C7. For every scenario of the catalog, a custom parameter under a key that the
  defaults do not have changes nothing: \<^verbatim>\<open>apply_scenario\<close> gives the same result (or
  the same error) with it as without it. In a result the keys of \<^verbatim>\<open>parameters_used\<close>
  are the keys of the defaults, a default that no custom item names is unchanged, and a
  custom item under a key of the defaults overrides it.
\<close>

theorem unknown_keys_ignored:
  assumes "get_scenario scen_id = Some sc"
  shows "(parameters sc k = None \<longrightarrow>
            apply_scenario E eng g0 scen_id (Some (xs @ (k, v) # ys))
              = apply_scenario E eng g0 scen_id (Some (xs @ ys)))
       \<and> apply_scenario E eng g0 scen_id (Some []) = apply_scenario E eng g0 scen_id None
       \<and> (apply_scenario E eng g0 scen_id (Some items) = Inr r \<longrightarrow>
            dom (parameters_used r) = dom (parameters sc)
          \<and> (k' \<notin> fst ` set items \<longrightarrow> parameters_used r k' = parameters sc k')
          \<and> (distinct (map fst items) \<and> (k', v') \<in> set items \<and> parameters sc k' \<noteq> None \<longrightarrow>
                parameters_used r k' = Some v'))"
proof (intro conjI impI)
  assume "parameters sc k = None"
  from merge_params_unknown[of "parameters sc" k xs v ys, OF this] show
    "apply_scenario E eng g0 scen_id (Some (xs @ (k, v) # ys))
       = apply_scenario E eng g0 scen_id (Some (xs @ ys))"
    using assms by (intro apply_scenario_params) auto
next
  show "apply_scenario E eng g0 scen_id (Some []) = apply_scenario E eng g0 scen_id None"
    using assms merge_params_empty by (intro apply_scenario_params) auto
next
  assume a: "apply_scenario E eng g0 scen_id (Some items) = Inr r"
  from apply_scenario_Inr[OF a] assms
  have pu: "parameters_used r = merge_params (parameters sc) (Some items)" by auto
  show "dom (parameters_used r) = dom (parameters sc)"
    unfolding pu by (rule merge_params_dom)
  {
    assume "k' \<notin> fst ` set items"
    then show "parameters_used r k' = parameters sc k'"
      unfolding pu by (simp add: merge_params_lookup map_of_rev_None)
  }
  {
    assume "distinct (map fst items) \<and> (k', v') \<in> set items \<and> parameters sc k' \<noteq> None"
    then show "parameters_used r k' = Some v'"
      unfolding pu by (auto simp: merge_params_lookup map_of_rev_Some)
  }
qed

theorem unknown_keys_ignored_witness:
  "(\<exists>sc. get_scenario 6 = Some sc \<and> parameters sc ''bogus'' = None)
   \<and> apply_scenario example_env example_engine (0, 0) 6 (Some [(''bogus'', Num 1)])
       = apply_scenario example_env example_engine (0, 0) 6 None
   \<and> (\<exists>r. apply_scenario example_env example_engine (0, 0) 6 (Some [(''bogus'', Num 1)]) = Inr r
         \<and> parameters_used r ''supply_reduction'' = Some (Num 0.15)
         \<and> parameters_used r ''bogus'' = None)"
proof -
  let ?p = "[''supply_reduction'' \<mapsto> Num 0.15, ''compliance_cost'' \<mapsto> Num 0.10,
            ''duration_months'' \<mapsto> Num 36]"
  let ?sc = "\<lparr>sid = 6, name = ''EU Regulatory Impact'', category = ''regulatory'',
         affected_regions = [''eu''], parameters = ?p, logic = Some ''eu_regulatory''\<rparr>"
  have b: "parameters ?sc ''bogus'' = None" by simp
  note t = unknown_keys_ignored[OF get_scenario_6, of "''bogus''" example_env example_engine
      "(0, 0)" "[]" "Num 1" "[]" "[(''bogus'', Num 1)]"]
  from t b have e: "apply_scenario example_env example_engine (0, 0) 6 (Some [(''bogus'', Num 1)])
       = apply_scenario example_env example_engine (0, 0) 6 None"
    by simp
  from example_scenario_6 e obtain r where
    r: "apply_scenario example_env example_engine (0, 0) 6 (Some [(''bogus'', Num 1)]) = Inr r"
    by auto
  from t[of r "''supply_reduction''"] r
  have "parameters_used r ''supply_reduction'' = Some (Num 0.15)" by simp
  moreover have "parameters_used r ''bogus'' = None"
  proof -
    from t[of r "''bogus''"] r have "dom (parameters_used r) = dom ?p" by simp
    moreover have "''bogus'' \<notin> dom ?p" by simp
    ultimately have "''bogus'' \<notin> dom (parameters_used r)" by blast
    then show ?thesis by (simp add: domIff)
  qed
  ultimately show ?thesis using get_scenario_6 b e r by blast
qed

section \<open>The comparison route\<close>

text \<open>
  Claim C8, on the code. The route answers 400 to an empty list and to a list of six
  identifiers. For a list of five it calls \<^verbatim>\<open>engine.compare_scenarios\<close>, a method that
  the class \<^verbatim>\<open>ScenarioEngine\<close> does not have: the \<^verbatim>\<open>AttributeError\<close> is caught and the
  route answers 500, where the claim has it succeed.
\<close>

theorem compare_scenarios_missing_method:
  "compare_scenarios \<lparr>is_json = True, scenario_ids = Some []\<rparr>
     = (400, Some ''scenario_ids is required'')
   \<and> compare_scenarios \<lparr>is_json = True, scenario_ids = Some [1, 2, 3, 4, 5, 6]\<rparr>
     = (400, Some ''Maximum 5 scenarios for comparison'')
   \<and> engine_getattr ''compare_scenarios'' = Inl AttributeError
   \<and> compare_scenarios \<lparr>is_json = True, scenario_ids = Some [1, 2, 3, 4, 5]\<rparr>
     = (500, Some ''Comparison error'')"
  by (simp add: compare_scenarios_def engine_getattr_def ScenarioEngine_attributes_def)


section \<open>The effect vector\<close>

















end
